theory Spec2Isabelle
  imports Main
begin

section \<open>Python values\<close>

text \<open>
  The values that \<^verbatim>\<open>response.json()\<close> can produce and that the handlers build and return:
  \<^verbatim>\<open>None\<close>, booleans, integers, floats, strings, lists and dictionaries with string keys.
  A dictionary is an association list in insertion order; a lookup takes the first pair
  with the key (a Python dict has every key once).  A float is kept as sign, mantissa and
  binary exponent (or an infinity, or NaN): the program only tests floats for truth and
  hands them on.
\<close>

datatype pyfloat = Finite bool nat int | Infinite bool | NotANumber

datatype pyval =
    PNone
  | PBool bool
  | PInt int
  | PFloat pyfloat
  | PStr string
  | PList "pyval list"
  | PDict "(string \<times> pyval) list"

fun float_truthy :: "pyfloat \<Rightarrow> bool" where
  "float_truthy (Finite s m e) = (m \<noteq> 0)"
| "float_truthy (Infinite s) = True"
| "float_truthy NotANumber = True"

text \<open>Python's truth value of an object, as \<^verbatim>\<open>not x\<close>, \<^verbatim>\<open>x or y\<close> and \<^verbatim>\<open>if x:\<close> use it.\<close>

fun truthy :: "pyval \<Rightarrow> bool" where
  "truthy PNone = False"
| "truthy (PBool b) = b"
| "truthy (PInt n) = (n \<noteq> 0)"
| "truthy (PFloat f) = float_truthy f"
| "truthy (PStr s) = (s \<noteq> [])"
| "truthy (PList xs) = (xs \<noteq> [])"
| "truthy (PDict d) = (d \<noteq> [])"

section \<open>Responses, exceptions, requests\<close>

text \<open>
  An \<^verbatim>\<open>httpx.Response\<close>: its status code, its text, and what \<^verbatim>\<open>.json()\<close> decodes the
  text to (\<open>None\<close> when the text is not JSON and \<^verbatim>\<open>.json()\<close> raises).
\<close>

datatype response = Response (status_code: int) (content: string) (decoded: "pyval option")

text \<open>
  The exceptions the handlers can meet.  \<open>RequestError\<close> is any exception of the HTTP
  client's \<^verbatim>\<open>post\<close> or \<^verbatim>\<open>get\<close> (connection, timeout, protocol), with its message;
  \<open>HTTPStatusError\<close> carries the response, as \<^verbatim>\<open>e.response\<close>; \<open>HTTPException\<close> is the
  framework's exception with \<^verbatim>\<open>status_code\<close> and \<^verbatim>\<open>detail\<close>.  A detail is a string literal of
  the source or \<^verbatim>\<open>str(e)\<close> of a caught exception, kept symbolic.
\<close>

datatype exn =
    AttributeError
  | TypeError
  | KeyError
  | JSONDecodeError
  | RequestError string
  | HTTPStatusError response
  | HTTPException int detail
and detail = Detail string | Str exn

type_synonym headers = "(string \<times> string) list"

datatype request =
    POST string headers "pyval option"
  | GET string headers

text \<open>A line printed to standard output: the pieces of the (f-)string.\<close>

datatype fragment = Lit string | Val pyval | Exn exn | Num int

section \<open>Dictionary and sequence operations\<close>

text \<open>\<^verbatim>\<open>x.get(k, default)\<close>: only a dict has \<^verbatim>\<open>get\<close>; \<^verbatim>\<open>x.get(k)\<close> has the default \<^verbatim>\<open>None\<close>.\<close>

fun dict_get :: "pyval \<Rightarrow> string \<Rightarrow> pyval \<Rightarrow> exn + pyval" where
  "dict_get (PDict d) k dflt = Inr (case map_of d k of None \<Rightarrow> dflt | Some v \<Rightarrow> v)"
| "dict_get PNone k dflt = Inl AttributeError"
| "dict_get (PBool b) k dflt = Inl AttributeError"
| "dict_get (PInt n) k dflt = Inl AttributeError"
| "dict_get (PFloat f) k dflt = Inl AttributeError"
| "dict_get (PStr s) k dflt = Inl AttributeError"
| "dict_get (PList xs) k dflt = Inl AttributeError"

text \<open>\<^verbatim>\<open>x[k]\<close> with a string key: a dict raises KeyError on a missing key, anything else
  raises TypeError (a list or a string wants an integer index, the rest has no subscript).\<close>

fun getitem :: "pyval \<Rightarrow> string \<Rightarrow> exn + pyval" where
  "getitem (PDict d) k = (case map_of d k of None \<Rightarrow> Inl KeyError | Some v \<Rightarrow> Inr v)"
| "getitem PNone k = Inl TypeError"
| "getitem (PBool b) k = Inl TypeError"
| "getitem (PInt n) k = Inl TypeError"
| "getitem (PFloat f) k = Inl TypeError"
| "getitem (PStr s) k = Inl TypeError"
| "getitem (PList xs) k = Inl TypeError"

text \<open>\<^verbatim>\<open>x[:n]\<close>: a string and a list have slices; a dict raises on the slice key, the rest
  has no subscript.\<close>

fun slice_to :: "pyval \<Rightarrow> nat \<Rightarrow> exn + pyval" where
  "slice_to (PStr s) n = Inr (PStr (take n s))"
| "slice_to (PList xs) n = Inr (PList (take n xs))"
| "slice_to PNone n = Inl TypeError"
| "slice_to (PBool b) n = Inl TypeError"
| "slice_to (PInt i) n = Inl TypeError"
| "slice_to (PFloat f) n = Inl TypeError"
| "slice_to (PDict d) n = Inl TypeError"

text \<open>\<^verbatim>\<open>for kb in x\<close>: a list gives its elements, a dict its keys, a string its characters;
  anything else is not iterable.\<close>

fun iterate :: "pyval \<Rightarrow> exn + pyval list" where
  "iterate (PList xs) = Inr xs"
| "iterate (PDict d) = Inr (map (\<lambda>kv. PStr (fst kv)) d)"
| "iterate (PStr s) = Inr (map (\<lambda>c. PStr [c]) s)"
| "iterate PNone = Inl TypeError"
| "iterate (PBool b) = Inl TypeError"
| "iterate (PInt n) = Inl TypeError"
| "iterate (PFloat f) = Inl TypeError"

text \<open>\<^verbatim>\<open>d[k] = v\<close> on a dict: the value of an existing key is replaced in place, a new key
  goes to the end.\<close>

fun setitem :: "(string \<times> pyval) list \<Rightarrow> string \<Rightarrow> pyval \<Rightarrow> (string \<times> pyval) list" where
  "setitem [] k v = [(k, v)]"
| "setitem (p # ps) k v = (if fst p = k then (k, v) # ps else p # setitem ps k v)"

section \<open>Configuration and process state\<close>

text \<open>Lines 23-24: \<^verbatim>\<open>HEYGEN_API_KEY\<close> is \<open>None\<close> when the variable is unset;
  \<^verbatim>\<open>HEYGEN_BASE_URL\<close> has a default.\<close>

record config =
  HEYGEN_API_KEY :: "string option"
  HEYGEN_BASE_URL :: string

definition load_config :: "(string \<rightharpoonup> string) \<Rightarrow> config" where
  "load_config environ =
     \<lparr> HEYGEN_API_KEY = environ ''HEYGEN_API_KEY'',
       HEYGEN_BASE_URL = (case environ ''HEYGEN_BASE_URL'' of
                            None \<Rightarrow> ''https://api.heygen.com'' | Some u \<Rightarrow> u) \<rparr>"

text \<open>
  The process: the global \<^verbatim>\<open>default_kb_id\<close> (line 27), the state of the world outside
  (the remote service and the network), the requests sent out so far, and what was
  printed.
\<close>

record 'w proc =
  default_kb_id :: pyval
  remote :: 'w
  outbound :: "request list"
  stdout :: "fragment list list"

definition initial :: "'w \<Rightarrow> 'w proc" where
  "initial w = \<lparr> default_kb_id = PNone, remote = w, outbound = [], stdout = [] \<rparr>"

text \<open>
  The HTTP client: a request and the state of the world give an outcome (an exception of
  the client with its message, or a response) and the next state of the world.
\<close>

type_synonym 'w client = "request \<Rightarrow> 'w \<Rightarrow> (string + response) \<times> 'w"

definition send :: "'w client \<Rightarrow> request \<Rightarrow> 'w proc \<Rightarrow> (exn + response) \<times> 'w proc" where
  "send client rq s =
     (case client rq (remote s) of
        (Inl msg, w) \<Rightarrow> (Inl (RequestError msg), s\<lparr>remote := w, outbound := outbound s @ [rq]\<rparr>)
      | (Inr r, w) \<Rightarrow> (Inr r, s\<lparr>remote := w, outbound := outbound s @ [rq]\<rparr>))"

definition print :: "fragment list \<Rightarrow> 'w proc \<Rightarrow> 'w proc" where
  "print line s = s\<lparr>stdout := stdout s @ [line]\<rparr>"

text \<open>\<^verbatim>\<open>response.raise_for_status()\<close> raises unless the status is a success (2xx).\<close>

definition is_success :: "response \<Rightarrow> bool" where
  "is_success r = (200 \<le> status_code r \<and> status_code r \<le> 299)"

definition raise_for_status :: "response \<Rightarrow> exn + unit" where
  "raise_for_status r = (if is_success r then Inr () else Inl (HTTPStatusError r))"

definition json :: "response \<Rightarrow> exn + pyval" where
  "json r = (case decoded r of None \<Rightarrow> Inl JSONDecodeError | Some v \<Rightarrow> Inr v)"

text \<open>The three statements every remote call is made of (lines 40-54, 59-67, 100-105,
  124-138, 143-151): send, \<^verbatim>\<open>raise_for_status()\<close>, \<^verbatim>\<open>.json()\<close>.\<close>

definition fetch_json :: "'w client \<Rightarrow> request \<Rightarrow> 'w proc \<Rightarrow> (exn + pyval) \<times> 'w proc" where
  "fetch_json client rq s =
     (case send client rq s of
        (Inl e, s') \<Rightarrow> (Inl e, s')
      | (Inr r, s') \<Rightarrow>
          (case raise_for_status r of
             Inl e \<Rightarrow> (Inl e, s')
           | Inr u \<Rightarrow> (json r, s')))"

section \<open>The requests sent to the remote service\<close>

definition create_request :: "config \<Rightarrow> string \<Rightarrow> string \<Rightarrow> string \<Rightarrow> string \<Rightarrow> request" where
  "create_request cfg key n opn p =
     POST (HEYGEN_BASE_URL cfg @ ''/v1/streaming/knowledge_base/create'')
       [(''accept'', ''application/json''), (''content-type'', ''application/json''),
        (''x-api-key'', key)]
       (Some (PDict [(''name'', PStr n), (''opening'', PStr opn), (''prompt'', PStr p)]))"

definition list_request :: "config \<Rightarrow> string \<Rightarrow> request" where
  "list_request cfg key =
     GET (HEYGEN_BASE_URL cfg @ ''/v1/streaming/knowledge_base/list'')
       [(''accept'', ''application/json''), (''x-api-key'', key)]"

definition token_request :: "config \<Rightarrow> string \<Rightarrow> request" where
  "token_request cfg key =
     POST (HEYGEN_BASE_URL cfg @ ''/v1/streaming.create_token'') [(''x-api-key'', key)] None"

section \<open>Find-or-create: extraction and scan\<close>

text \<open>Lines 55 and 139, the same expression:
  \<^verbatim>\<open>data.get("data", {}).get("knowledge_base_id") or data.get("data", {}).get("id")\<close>.\<close>

definition extract_id :: "pyval \<Rightarrow> exn + pyval" where
  "extract_id data =
     (case dict_get data ''data'' (PDict []) of
        Inl e \<Rightarrow> Inl e
      | Inr d \<Rightarrow>
          (case dict_get d ''knowledge_base_id'' PNone of
             Inl e \<Rightarrow> Inl e
           | Inr a \<Rightarrow>
               if truthy a then Inr a
               else (case dict_get data ''data'' (PDict []) of
                       Inl e \<Rightarrow> Inl e
                     | Inr d' \<Rightarrow> dict_get d' ''id'' PNone)))"

text \<open>Lines 68 and 152: \<^verbatim>\<open>list_data.get("data", {}).get("list", [])\<close>.\<close>

definition kb_list_of :: "pyval \<Rightarrow> exn + pyval" where
  "kb_list_of list_data =
     (case dict_get list_data ''data'' (PDict []) of
        Inl e \<Rightarrow> Inl e
      | Inr d \<Rightarrow> dict_get d ''list'' (PList []))"

text \<open>Lines 71-73 and 156-158: the condition of the scan, \<^verbatim>\<open>and\<close> evaluated left to right.\<close>

definition kb_matches :: "pyval \<Rightarrow> string \<Rightarrow> string \<Rightarrow> string \<Rightarrow> exn + bool" where
  "kb_matches kb n opn p =
     (case dict_get kb ''name'' PNone of
        Inl e \<Rightarrow> Inl e
      | Inr a \<Rightarrow>
          if a = PStr n then
            (case dict_get kb ''opening'' PNone of
               Inl e \<Rightarrow> Inl e
             | Inr b \<Rightarrow>
                 if b = PStr opn then
                   (case dict_get kb ''prompt'' PNone of
                      Inl e \<Rightarrow> Inl e
                    | Inr c \<Rightarrow> Inr (c = PStr p))
                 else Inr False)
          else Inr False)"

text \<open>Lines 70-75 and 155-160: the loop.  The last argument is the value of the
  identifier variable before the loop, which a loop without a match leaves as it is.\<close>

fun scan_kb_list :: "pyval list \<Rightarrow> string \<Rightarrow> string \<Rightarrow> string \<Rightarrow> pyval \<Rightarrow> exn + pyval" where
  "scan_kb_list [] n opn p kb_id = Inr kb_id"
| "scan_kb_list (kb # kbs) n opn p kb_id =
     (case kb_matches kb n opn p of
        Inl e \<Rightarrow> Inl e
      | Inr m \<Rightarrow> if m then dict_get kb ''id'' PNone else scan_kb_list kbs n opn p kb_id)"

text \<open>Lines 143-160 (and 59-75): fetch the list and scan it.\<close>

definition find_by_match ::
  "'w client \<Rightarrow> config \<Rightarrow> string \<Rightarrow> string \<Rightarrow> string \<Rightarrow> string \<Rightarrow> pyval \<Rightarrow> 'w proc
     \<Rightarrow> (exn + pyval) \<times> 'w proc" where
  "find_by_match client cfg key n opn p kb_id s =
     (case fetch_json client (list_request cfg key) s of
        (Inl e, s') \<Rightarrow> (Inl e, s')
      | (Inr list_data, s') \<Rightarrow>
          (case kb_list_of list_data of
             Inl e \<Rightarrow> (Inl e, s')
           | Inr kb_list \<Rightarrow>
               (case iterate kb_list of
                  Inl e \<Rightarrow> (Inl e, s')
                | Inr kbs \<Rightarrow> (scan_kb_list kbs n opn p kb_id, s'))))"

section \<open>Startup provisioning (lines 29-84)\<close>

definition default_name :: string where
  "default_name = ''Office Query Solver''"

definition default_opening :: string where
  "default_opening = ''starts with a greeting''"

definition default_prompt :: string where
  "default_prompt = ''You are an IT industry office query solver. Help users with workplace-related queries in the IT industry, such as software development, project management, team collaboration, and technical challenges.''"

text \<open>The body of the \<^verbatim>\<open>try\<close> (lines 39-80).  The global is assigned at line 55 and, on a
  match, at line 74; an exception leaves the body with the global as it then is.\<close>

definition startup_try :: "config \<Rightarrow> string \<Rightarrow> 'w client \<Rightarrow> 'w proc \<Rightarrow> (exn + unit) \<times> 'w proc" where
  "startup_try cfg key client s =
     (case fetch_json client (create_request cfg key default_name default_opening default_prompt)
             (print [Lit ''Creating default knowledge base...''] s) of
        (Inl e, s1) \<Rightarrow> (Inl e, s1)
      | (Inr data, s1) \<Rightarrow>
          (case extract_id data of
             Inl e \<Rightarrow> (Inl e, s1)
           | Inr v \<Rightarrow>
               (case (if \<not> truthy v then
                        (case find_by_match client cfg key default_name default_opening
                                default_prompt v (s1\<lparr>default_kb_id := v\<rparr>) of
                           (Inl e, s2) \<Rightarrow> (Inl e, s2)
                         | (Inr v', s2) \<Rightarrow> (Inr (), s2\<lparr>default_kb_id := v'\<rparr>))
                      else (Inr (), s1\<lparr>default_kb_id := v\<rparr>)) of
                  (Inl e, s3) \<Rightarrow> (Inl e, s3)
                | (Inr u, s3) \<Rightarrow>
                    (Inr (),
                     if truthy (default_kb_id s3)
                     then print [Lit ''Default KB created/found with ID: '', Val (default_kb_id s3)] s3
                     else print [Lit ''WARNING: Failed to create or find default KB''] s3))))"

definition startup_event :: "config \<Rightarrow> 'w client \<Rightarrow> 'w proc \<Rightarrow> 'w proc" where
  "startup_event cfg client s =
     (case HEYGEN_API_KEY cfg of
        None \<Rightarrow> print [Lit ''WARNING: Cannot create default KB - API key missing''] s
      | Some key \<Rightarrow>
          if key = [] then print [Lit ''WARNING: Cannot create default KB - API key missing''] s
          else (case startup_try cfg key client s of
                  (Inl e, s') \<Rightarrow>
                    (print [Lit ''Error creating default KB on startup: '', Exn e] s')
                      \<lparr>default_kb_id := PNone\<rparr>
                | (Inr u, s') \<Rightarrow> s'))"

section \<open>The request handlers\<close>

record KnowledgeBaseRequest =
  name :: string
  "opening" :: string
  prompt :: string

text \<open>\<^verbatim>\<open>get_access_token\<close>, lines 93-114.  The body of the \<^verbatim>\<open>try\<close> first.\<close>

definition get_access_token_try :: "config \<Rightarrow> string \<Rightarrow> 'w client \<Rightarrow> 'w proc \<Rightarrow> (exn + pyval) \<times> 'w proc" where
  "get_access_token_try cfg key client s =
     (case fetch_json client (token_request cfg key) s of
        (Inl e, s1) \<Rightarrow> (Inl e, s1)
      | (Inr data, s1) \<Rightarrow>
          (case getitem data ''data'' of
             Inl e \<Rightarrow> (Inl e, s1)
           | Inr d \<Rightarrow>
               (case getitem d ''token'' of
                  Inl e \<Rightarrow> (Inl e, s1)
                | Inr token \<Rightarrow>
                    (case slice_to token 50 of
                       Inl e \<Rightarrow> (Inl e, s1)
                     | Inr t \<Rightarrow>
                         (Inr (PDict [(''token'', token)]),
                          print [Lit ''Generated token: '', Val t, Lit ''...''] s1)))))"

text \<open>The two \<^verbatim>\<open>except\<close> clauses, lines 109-114.\<close>

fun get_access_token_except :: "exn \<Rightarrow> 'w proc \<Rightarrow> exn \<times> 'w proc" where
  "get_access_token_except (HTTPStatusError r) s =
     (HTTPException (status_code r) (Detail ''Failed to retrieve access token''),
      print [Lit ''HTTP error: '', Num (status_code r), Lit '', '', Lit (content r)] s)"
| "get_access_token_except AttributeError s =
     (HTTPException 500 (Str AttributeError), print [Lit ''Exception: '', Exn AttributeError] s)"
| "get_access_token_except TypeError s =
     (HTTPException 500 (Str TypeError), print [Lit ''Exception: '', Exn TypeError] s)"
| "get_access_token_except KeyError s =
     (HTTPException 500 (Str KeyError), print [Lit ''Exception: '', Exn KeyError] s)"
| "get_access_token_except JSONDecodeError s =
     (HTTPException 500 (Str JSONDecodeError), print [Lit ''Exception: '', Exn JSONDecodeError] s)"
| "get_access_token_except (RequestError m) s =
     (HTTPException 500 (Str (RequestError m)), print [Lit ''Exception: '', Exn (RequestError m)] s)"
| "get_access_token_except (HTTPException c d) s =
     (HTTPException 500 (Str (HTTPException c d)),
      print [Lit ''Exception: '', Exn (HTTPException c d)] s)"

definition get_access_token :: "config \<Rightarrow> 'w client \<Rightarrow> 'w proc \<Rightarrow> (exn + pyval) \<times> 'w proc" where
  "get_access_token cfg client s =
     (case HEYGEN_API_KEY cfg of
        None \<Rightarrow> (Inl (HTTPException 500 (Detail ''API key is missing from environment'')), s)
      | Some key \<Rightarrow>
          if key = [] then
            (Inl (HTTPException 500 (Detail ''API key is missing from environment'')), s)
          else (case get_access_token_try cfg key client s of
                  (Inl e, s') \<Rightarrow>
                    (case get_access_token_except e s' of (e', s'') \<Rightarrow> (Inl e', s''))
                | (Inr v, s') \<Rightarrow> (Inr v, s')))"

text \<open>\<^verbatim>\<open>create_knowledge_base\<close>, lines 116-169.  The body of the \<^verbatim>\<open>try\<close> first; the
  \<^verbatim>\<open>HTTPException\<close> of line 163 is raised inside it.\<close>

definition create_knowledge_base_try ::
  "config \<Rightarrow> string \<Rightarrow> 'w client \<Rightarrow> KnowledgeBaseRequest \<Rightarrow> 'w proc \<Rightarrow> (exn + pyval) \<times> 'w proc" where
  "create_knowledge_base_try cfg key client request s =
     (case fetch_json client
             (create_request cfg key (name request) (opening request) (prompt request)) s of
        (Inl e, s1) \<Rightarrow> (Inl e, s1)
      | (Inr data, s1) \<Rightarrow>
          (case extract_id data of
             Inl e \<Rightarrow> (Inl e, s1)
           | Inr kb_id \<Rightarrow>
               (case (if \<not> truthy kb_id then
                        find_by_match client cfg key (name request) (opening request)
                          (prompt request) kb_id s1
                      else (Inr kb_id, s1)) of
                  (Inl e, s2) \<Rightarrow> (Inl e, s2)
                | (Inr kb_id', s2) \<Rightarrow>
                    if \<not> truthy kb_id' then
                      (Inl (HTTPException 500 (Detail ''Failed to retrieve knowledge base ID'')), s2)
                    else (Inr (PDict [(''knowledge_base_id'', kb_id')]), s2))))"

text \<open>The two \<^verbatim>\<open>except\<close> clauses, lines 166-169.\<close>

fun create_knowledge_base_except :: "exn \<Rightarrow> exn" where
  "create_knowledge_base_except (HTTPStatusError r) =
     HTTPException (status_code r) (Detail ''Failed to create or retrieve knowledge base'')"
| "create_knowledge_base_except AttributeError = HTTPException 500 (Str AttributeError)"
| "create_knowledge_base_except TypeError = HTTPException 500 (Str TypeError)"
| "create_knowledge_base_except KeyError = HTTPException 500 (Str KeyError)"
| "create_knowledge_base_except JSONDecodeError = HTTPException 500 (Str JSONDecodeError)"
| "create_knowledge_base_except (RequestError m) = HTTPException 500 (Str (RequestError m))"
| "create_knowledge_base_except (HTTPException c d) = HTTPException 500 (Str (HTTPException c d))"

definition create_knowledge_base ::
  "config \<Rightarrow> 'w client \<Rightarrow> KnowledgeBaseRequest \<Rightarrow> 'w proc \<Rightarrow> (exn + pyval) \<times> 'w proc" where
  "create_knowledge_base cfg client request s =
     (case HEYGEN_API_KEY cfg of
        None \<Rightarrow> (Inl (HTTPException 500 (Detail ''API key is missing from environment'')), s)
      | Some key \<Rightarrow>
          if key = [] then
            (Inl (HTTPException 500 (Detail ''API key is missing from environment'')), s)
          else (case create_knowledge_base_try cfg key client request s of
                  (Inl e, s') \<Rightarrow> (Inl (create_knowledge_base_except e), s')
                | (Inr v, s') \<Rightarrow> (Inr v, s')))"

text \<open>\<^verbatim>\<open>get_default_config\<close>, lines 173-199.  \<open>1.5\<close> is \<open>3 * 2^-1\<close>.\<close>

definition static_config :: "(string \<times> pyval) list" where
  "static_config =
     [(''quality'', PStr ''Low''),
      (''avatar_name'', PStr ''Elenora_IT_Sitting_public''),
      (''voice'', PDict [(''rate'', PFloat (Finite False 3 (- 1))),
                         (''emotion'', PStr ''EXCITED''),
                         (''model'', PStr ''eleven_flash_v2_5'')]),
      (''language'', PStr ''en''),
      (''voice_chat_transport'', PStr ''WEBSOCKET''),
      (''stt_settings'', PDict [(''provider'', PStr ''DEEPGRAM'')]),
      (''opening_message'', PStr ''Hello! I am ready to chat.'')]"

definition get_default_config :: "'w proc \<Rightarrow> (exn + pyval) \<times> 'w proc" where
  "get_default_config s =
     (if truthy (default_kb_id s)
      then (Inr (PDict (setitem static_config ''knowledge_id'' (default_kb_id s))), s)
      else (Inr (PDict (setitem static_config ''knowledge_id'' PNone)), s))"

text \<open>\<^verbatim>\<open>root\<close>, lines 203-205.\<close>

definition root :: "'w proc \<Rightarrow> (exn + pyval) \<times> 'w proc" where
  "root s = (Inr (PDict [(''message'', PStr ''Streaming Avatar FastAPI Backend'')]), s)"

section \<open>The life of the process\<close>

text \<open>
  The framework runs the startup handler once, to its end, before it routes any request
  (the \<^verbatim>\<open>on_event("startup")\<close> registration of line 29); then each request goes to the handler
  of its route, with the body of \<^verbatim>\<open>/create-knowledge-base\<close> already validated as a
  \<open>KnowledgeBaseRequest\<close>.
\<close>

datatype call =
    GetAccessToken
  | CreateKnowledgeBase KnowledgeBaseRequest
  | GetDefaultConfig
  | Root

fun handle :: "config \<Rightarrow> 'w client \<Rightarrow> call \<Rightarrow> 'w proc \<Rightarrow> (exn + pyval) \<times> 'w proc" where
  "handle cfg client GetAccessToken s = get_access_token cfg client s"
| "handle cfg client (CreateKnowledgeBase request) s = create_knowledge_base cfg client request s"
| "handle cfg client GetDefaultConfig s = get_default_config s"
| "handle cfg client Root s = root s"

fun serve :: "config \<Rightarrow> 'w client \<Rightarrow> call list \<Rightarrow> 'w proc \<Rightarrow> 'w proc" where
  "serve cfg client [] s = s"
| "serve cfg client (c # cs) s = serve cfg client cs (snd (handle cfg client c s))"

definition run :: "config \<Rightarrow> 'w client \<Rightarrow> call list \<Rightarrow> 'w \<Rightarrow> 'w proc" where
  "run cfg client cs w = serve cfg client cs (startup_event cfg client (initial w))"

section \<open>Reading a list entry\<close>

text \<open>\<^verbatim>\<open>kb.get(k)\<close> on an entry that is a dict: the value, \<^verbatim>\<open>None\<close> for a missing key.\<close>

definition entry_get :: "(string \<times> pyval) list \<Rightarrow> string \<Rightarrow> pyval" where
  "entry_get d k = (case map_of d k of None \<Rightarrow> PNone | Some v \<Rightarrow> v)"

text \<open>The specification's match: the entry's \<open>(name, opening, prompt)\<close> triple equals the
  descriptor's, field by field.\<close>

definition same_descriptor :: "string \<Rightarrow> string \<Rightarrow> string \<Rightarrow> (string \<times> pyval) list \<Rightarrow> bool" where
  "same_descriptor n opn p d =
     (entry_get d ''name'' = PStr n \<and> entry_get d ''opening'' = PStr opn
      \<and> entry_get d ''prompt'' = PStr p)"

text \<open>Python's \<^verbatim>\<open>a or b\<close> on two values already computed.\<close>

definition or_else :: "pyval \<Rightarrow> pyval \<Rightarrow> pyval" where
  "or_else a b = (if truthy a then a else b)"

section \<open>Test doubles\<close>

text \<open>A client that answers from a script, one outcome per request, whatever the request;
  when the script is over the connection fails.\<close>

fun scripted :: "request \<Rightarrow> (string + response) list \<Rightarrow> (string + response) \<times> (string + response) list" where
  "scripted rq [] = (Inl ''connection refused'', [])"
| "scripted rq (out # outs) = (out, outs)"

definition ok :: "pyval \<Rightarrow> string + response" where
  "ok v = Inr (Response 200 [] (Some v))"

definition test_config :: config where
  "test_config = \<lparr> HEYGEN_API_KEY = Some ''test-key'', HEYGEN_BASE_URL = ''https://api.heygen.com'' \<rparr>"

definition no_key_config :: config where
  "no_key_config = \<lparr> HEYGEN_API_KEY = None, HEYGEN_BASE_URL = ''https://api.heygen.com'' \<rparr>"

definition docs_request :: KnowledgeBaseRequest where
  "docs_request = \<lparr> name = ''Docs'', opening = ''hello'', prompt = ''answer briefly'' \<rparr>"

definition docs_entry :: "pyval \<Rightarrow> (string \<times> pyval) list" where
  "docs_entry i =
     [(''name'', PStr ''Docs''), (''opening'', PStr ''hello''), (''prompt'', PStr ''answer briefly''),
      (''id'', i)]"

definition entry_of :: "string \<Rightarrow> string \<Rightarrow> string \<Rightarrow> (string \<times> pyval) list \<Rightarrow> (string \<times> pyval) list" where
  "entry_of n opn p rest = [(''name'', PStr n), (''opening'', PStr opn), (''prompt'', PStr p)] @ rest"

definition listing :: "(string \<times> pyval) list list \<Rightarrow> pyval" where
  "listing ds = PDict [(''data'', PDict [(''list'', PList (map PDict ds))])]"

text \<open>A remote service that adds a knowledge base on every create, never answers a create
  with an identifier, and lists what it keeps, oldest first.\<close>

definition appending_service :: "request \<Rightarrow> (string \<times> pyval) list list
    \<Rightarrow> (string + response) \<times> (string \<times> pyval) list list" where
  "appending_service rq kbs =
     (case rq of
        GET url hs \<Rightarrow> (ok (listing kbs), kbs)
      | POST url hs body \<Rightarrow>
          (case body of
             Some (PDict items) \<Rightarrow>
               (ok (PDict [(''data'', PDict [])]),
                kbs @ [items @ [(''id'', PStr (''kb_'' @ replicate (Suc (length kbs)) CHR ''i''))]])
           | _ \<Rightarrow> (Inr (Response 400 [] None), kbs)))"

text \<open>A remote service that adds a knowledge base on every create and answers the create
  with the identifier of what it added; it lists what it keeps, oldest first.\<close>

definition plain_service :: "request \<Rightarrow> (string \<times> pyval) list list
    \<Rightarrow> (string + response) \<times> (string \<times> pyval) list list" where
  "plain_service rq kbs =
     (case rq of
        GET url hs \<Rightarrow> (ok (listing kbs), kbs)
      | POST url hs body \<Rightarrow>
          (case body of
             Some (PDict items) \<Rightarrow>
               (ok (PDict [(''data'',
                      PDict [(''id'', PStr (''kb_'' @ replicate (Suc (length kbs)) CHR ''i''))])]),
                kbs @ [items @ [(''id'', PStr (''kb_'' @ replicate (Suc (length kbs)) CHR ''i''))]])
           | _ \<Rightarrow> (Inr (Response 400 [] None), kbs)))"

section \<open>The cached identifier is written by startup only\<close>

lemma send_default_kb_id: "send client rq s = (r, s') \<Longrightarrow> default_kb_id s' = default_kb_id s"
  by (auto simp: send_def split: prod.splits sum.splits)

lemma fetch_json_default_kb_id:
  "fetch_json client rq s = (r, s') \<Longrightarrow> default_kb_id s' = default_kb_id s"
  by (auto simp: fetch_json_def split: prod.splits sum.splits dest: send_default_kb_id)

lemma find_by_match_default_kb_id:
  "find_by_match client cfg key n opn p v s = (r, s') \<Longrightarrow> default_kb_id s' = default_kb_id s"
  by (auto simp: find_by_match_def split: prod.splits sum.splits dest: fetch_json_default_kb_id)

lemma get_access_token_except_default_kb_id:
  "get_access_token_except e s = (e', s') \<Longrightarrow> default_kb_id s' = default_kb_id s"
  by (cases e) (auto simp: print_def)

lemma get_access_token_try_default_kb_id:
  "get_access_token_try cfg key client s = (r, s') \<Longrightarrow> default_kb_id s' = default_kb_id s"
  by (auto simp: get_access_token_try_def print_def split: prod.splits sum.splits
      dest: fetch_json_default_kb_id)

lemma get_access_token_default_kb_id:
  "default_kb_id (snd (get_access_token cfg client s)) = default_kb_id s"
  by (auto simp: get_access_token_def split: option.splits sum.splits prod.splits
      dest!: get_access_token_try_default_kb_id get_access_token_except_default_kb_id)

lemma create_knowledge_base_try_default_kb_id:
  "create_knowledge_base_try cfg key client request s = (r, s') \<Longrightarrow>
     default_kb_id s' = default_kb_id s"
  by (auto simp: create_knowledge_base_try_def split: sum.splits prod.splits if_splits
      dest!: fetch_json_default_kb_id find_by_match_default_kb_id)

lemma create_knowledge_base_default_kb_id:
  "default_kb_id (snd (create_knowledge_base cfg client request s)) = default_kb_id s"
  by (auto simp: create_knowledge_base_def split: option.splits sum.splits prod.splits
      dest!: create_knowledge_base_try_default_kb_id)

lemma handle_default_kb_id: "default_kb_id (snd (handle cfg client c s)) = default_kb_id s"
  by (cases c)
     (simp_all add: get_access_token_default_kb_id create_knowledge_base_default_kb_id
        get_default_config_def root_def)

lemma serve_default_kb_id: "default_kb_id (serve cfg client cs s) = default_kb_id s"
  by (induction cs arbitrary: s) (simp_all add: handle_default_kb_id)

lemma serve_append: "serve cfg client (cs @ cs') s = serve cfg client cs' (serve cfg client cs s)"
  by (induction cs arbitrary: s) simp_all

text \<open>
  C7.  No request handler writes the cached identifier: each of the four handlers leaves
  \<open>default_kb_id\<close> as it found it.  So in a run of the process (startup once, then any
  sequence of requests) the cached identifier is, after every request, the value startup
  left: the identifier provisioned, or \<open>None\<close> for good when provisioning failed.
\<close>

theorem cached_identifier_never_mutated:
  "default_kb_id (snd (get_access_token cfg client s)) = default_kb_id s
   \<and> default_kb_id (snd (create_knowledge_base cfg client request s)) = default_kb_id s
   \<and> default_kb_id (snd (get_default_config s)) = default_kb_id s
   \<and> default_kb_id (snd (root s)) = default_kb_id s
   \<and> default_kb_id (run cfg client cs w) = default_kb_id (startup_event cfg client (initial w))
   \<and> default_kb_id (run cfg client (cs @ cs') w) = default_kb_id (run cfg client cs w)"
  by (simp add: get_access_token_default_kb_id create_knowledge_base_default_kb_id
        get_default_config_def root_def run_def serve_default_kb_id)

theorem cached_identifier_never_mutated_witness:
  "default_kb_id (run no_key_config scripted
      [GetDefaultConfig, CreateKnowledgeBase docs_request, GetAccessToken, Root] []) = PNone
   \<and> default_kb_id (run test_config scripted
      [CreateKnowledgeBase docs_request, GetDefaultConfig]
      [ok (PDict [(''data'', PDict [(''id'', PStr ''kb_123'')])])]) = PStr ''kb_123''"
proof -
  have a: "default_kb_id (startup_event no_key_config scripted (initial [])) = PNone"
    by (simp add: startup_event_def no_key_config_def print_def initial_def)
  have b: "default_kb_id (startup_event test_config scripted
             (initial [ok (PDict [(''data'', PDict [(''id'', PStr ''kb_123'')])])])) = PStr ''kb_123''"
    by (simp add: startup_event_def startup_try_def fetch_json_def send_def raise_for_status_def
          is_success_def json_def extract_id_def test_config_def print_def initial_def ok_def)
  show ?thesis
    using a b
      cached_identifier_never_mutated [of no_key_config scripted "initial []" docs_request
        "[GetDefaultConfig, CreateKnowledgeBase docs_request, GetAccessToken, Root]" "[]" "[]"]
      cached_identifier_never_mutated [of test_config scripted "initial []" docs_request
        "[CreateKnowledgeBase docs_request, GetDefaultConfig]"
        "[ok (PDict [(''data'', PDict [(''id'', PStr ''kb_123'')])])]" "[]"]
    by simp
qed

section \<open>One remote call\<close>

lemma fetch_json_raises:
  "client rq (remote s) = (Inl m, w) \<Longrightarrow>
     fetch_json client rq s = (Inl (RequestError m), s\<lparr>remote := w, outbound := outbound s @ [rq]\<rparr>)"
  by (simp add: fetch_json_def send_def)

lemma fetch_json_status:
  "client rq (remote s) = (Inr r, w) \<Longrightarrow> \<not> is_success r \<Longrightarrow>
     fetch_json client rq s = (Inl (HTTPStatusError r), s\<lparr>remote := w, outbound := outbound s @ [rq]\<rparr>)"
  by (simp add: fetch_json_def send_def raise_for_status_def)

lemma fetch_json_undecoded:
  "client rq (remote s) = (Inr r, w) \<Longrightarrow> is_success r \<Longrightarrow> decoded r = None \<Longrightarrow>
     fetch_json client rq s = (Inl JSONDecodeError, s\<lparr>remote := w, outbound := outbound s @ [rq]\<rparr>)"
  by (simp add: fetch_json_def send_def raise_for_status_def json_def)

lemma fetch_json_data:
  "client rq (remote s) = (Inr r, w) \<Longrightarrow> is_success r \<Longrightarrow> decoded r = Some data \<Longrightarrow>
     fetch_json client rq s = (Inr data, s\<lparr>remote := w, outbound := outbound s @ [rq]\<rparr>)"
  by (simp add: fetch_json_def send_def raise_for_status_def json_def)

section \<open>The scan of the list\<close>

lemma kb_matches_dict: "kb_matches (PDict d) n opn p = Inr (same_descriptor n opn p d)"
  by (simp add: kb_matches_def same_descriptor_def entry_get_def)

lemma scan_kb_list_dicts:
  "scan_kb_list (map PDict ds) n opn p v =
     Inr (case find (same_descriptor n opn p) ds of None \<Rightarrow> v | Some d \<Rightarrow> entry_get d ''id'')"
  by (induction ds) (simp_all add: kb_matches_dict entry_get_def)

lemma find_by_match_dicts:
  assumes "client (list_request cfg key) (remote s) = (Inr r, w)" "is_success r"
    "decoded r = Some list_data" "kb_list_of list_data = Inr (PList (map PDict ds))"
  shows "find_by_match client cfg key n opn p v s =
     (Inr (case find (same_descriptor n opn p) ds of None \<Rightarrow> v | Some d \<Rightarrow> entry_get d ''id''),
      s\<lparr>remote := w, outbound := outbound s @ [list_request cfg key]\<rparr>)"
  using assms by (simp add: find_by_match_def fetch_json_data scan_kb_list_dicts)

lemmas eval_defs = test_config_def docs_request_def docs_entry_def listing_def ok_def initial_def
  create_request_def list_request_def is_success_def extract_id_def kb_list_of_def
  same_descriptor_def entry_get_def

text \<open>
  C1.  With the credential present, when the remote create call succeeds (a 2xx response
  with a JSON body) and the body holds neither a non-empty \<open>knowledge_base_id\<close> nor a
  non-empty \<open>id\<close> under \<open>data\<close> (the extraction gives a value that is not true), the
  operation sends the list request after the create request; when that call succeeds with a
  list of entries, the first entry whose \<open>(name, opening, prompt)\<close> equals the request's
  decides: its identifier, when it has one, is the response \<open>{knowledge_base_id: id}\<close>, and
  with no matching entry the operation fails with status 500.
\<close>

theorem create_falls_back_to_list_scan:
  assumes "HEYGEN_API_KEY cfg = Some key" "key \<noteq> []"
    and "client (create_request cfg key (name request) (opening request) (prompt request)) (remote s)
           = (Inr r, w)"
    and "is_success r" "decoded r = Some data" "extract_id data = Inr v" "\<not> truthy v"
    and "client (list_request cfg key) w = (Inr r', w')"
    and "is_success r'" "decoded r' = Some list_data"
    and "kb_list_of list_data = Inr (PList (map PDict ds))"
  shows "outbound (snd (create_knowledge_base cfg client request s)) =
           outbound s @ [create_request cfg key (name request) (opening request) (prompt request),
                         list_request cfg key]
     \<and> (case find (same_descriptor (name request) (opening request) (prompt request)) ds of
          None \<Rightarrow> fst (create_knowledge_base cfg client request s) =
                   Inl (HTTPException 500
                         (Str (HTTPException 500 (Detail ''Failed to retrieve knowledge base ID''))))
        | Some d \<Rightarrow> truthy (entry_get d ''id'') \<longrightarrow>
                   fst (create_knowledge_base cfg client request s) =
                   Inr (PDict [(''knowledge_base_id'', entry_get d ''id'')]))"
proof -
  let ?s1 = "s\<lparr>remote := w, outbound := outbound s @ [create_request cfg key (name request) (opening request) (prompt request)]\<rparr>"
  have f1: "fetch_json client (create_request cfg key (name request) (opening request) (prompt request)) s
          = (Inr data, ?s1)"
    using assms(3-5) by (rule fetch_json_data)
  have l: "client (list_request cfg key) (remote ?s1) = (Inr r', w')"
    using assms(8) by simp
  have f2: "find_by_match client cfg key (name request) (opening request) (prompt request) v ?s1 =
     (Inr (case find (same_descriptor (name request) (opening request) (prompt request)) ds of
             None \<Rightarrow> v | Some d \<Rightarrow> entry_get d ''id''),
      ?s1\<lparr>remote := w', outbound := outbound ?s1 @ [list_request cfg key]\<rparr>)"
    using l assms(9-11) by (rule find_by_match_dicts)
  show ?thesis
    using assms(1,2,6,7)
    by (simp add: create_knowledge_base_def create_knowledge_base_try_def f1 f2 split: option.splits)
qed

theorem create_falls_back_to_list_scan_witness:
  "fst (create_knowledge_base test_config scripted docs_request
          (initial [ok (PDict [(''data'', PDict [])]), ok (listing [docs_entry (PStr ''kb_999'')])]))
     = Inr (PDict [(''knowledge_base_id'', PStr ''kb_999'')])
   \<and> fst (create_knowledge_base test_config scripted docs_request
          (initial [ok (PDict [(''data'', PDict [])]), ok (listing [])]))
     = Inl (HTTPException 500
             (Str (HTTPException 500 (Detail ''Failed to retrieve knowledge base ID''))))"
proof -
  have a: "fst (create_knowledge_base test_config scripted docs_request
          (initial [ok (PDict [(''data'', PDict [])]), ok (listing [docs_entry (PStr ''kb_999'')])]))
     = Inr (PDict [(''knowledge_base_id'', PStr ''kb_999'')])"
    using create_falls_back_to_list_scan [of test_config "''test-key''" scripted docs_request
        "initial [ok (PDict [(''data'', PDict [])]), ok (listing [docs_entry (PStr ''kb_999'')])]"
        "Response 200 [] (Some (PDict [(''data'', PDict [])]))"
        "[ok (listing [docs_entry (PStr ''kb_999'')])]"
        "PDict [(''data'', PDict [])]" PNone
        "Response 200 [] (Some (listing [docs_entry (PStr ''kb_999'')]))" "[]"
        "listing [docs_entry (PStr ''kb_999'')]" "[docs_entry (PStr ''kb_999'')]"]
    by (simp add: eval_defs)
  have b: "fst (create_knowledge_base test_config scripted docs_request
          (initial [ok (PDict [(''data'', PDict [])]), ok (listing [])]))
     = Inl (HTTPException 500
             (Str (HTTPException 500 (Detail ''Failed to retrieve knowledge base ID''))))"
    using create_falls_back_to_list_scan [of test_config "''test-key''" scripted docs_request
        "initial [ok (PDict [(''data'', PDict [])]), ok (listing [])]"
        "Response 200 [] (Some (PDict [(''data'', PDict [])]))"
        "[ok (listing [])]"
        "PDict [(''data'', PDict [])]" PNone
        "Response 200 [] (Some (listing []))" "[]"
        "listing []" "[]"]
    by (simp add: eval_defs)
  show ?thesis using a b by simp
qed

section \<open>Missing credential\<close>

text \<open>
  C4.  When the API key is unset or empty, \<open>get_access_token\<close> and \<open>create_knowledge_base\<close>
  both fail, for every input, with status 500 and the detail of the missing key, and the
  process state is the one they started from: no request went out and the remote side was
  not touched, the error being raised before any client is used.
\<close>

theorem missing_credential_fails_without_call:
  "HEYGEN_API_KEY cfg = None \<or> HEYGEN_API_KEY cfg = Some [] \<Longrightarrow>
     get_access_token cfg client s =
       (Inl (HTTPException 500 (Detail ''API key is missing from environment'')), s)
     \<and> create_knowledge_base cfg client request s =
       (Inl (HTTPException 500 (Detail ''API key is missing from environment'')), s)"
  by (auto simp: get_access_token_def create_knowledge_base_def)

theorem missing_credential_fails_without_call_witness:
  "get_access_token no_key_config scripted (initial [ok PNone]) =
       (Inl (HTTPException 500 (Detail ''API key is missing from environment'')), initial [ok PNone])
   \<and> create_knowledge_base (no_key_config\<lparr>HEYGEN_API_KEY := Some []\<rparr>) scripted docs_request (initial [ok PNone]) =
       (Inl (HTTPException 500 (Detail ''API key is missing from environment'')), initial [ok PNone])
   \<and> outbound (snd (create_knowledge_base no_key_config scripted docs_request (initial [ok PNone]))) = []"
  using missing_credential_fails_without_call [of no_key_config scripted "initial [ok PNone]" docs_request]
    missing_credential_fails_without_call [of "no_key_config\<lparr>HEYGEN_API_KEY := Some []\<rparr>" scripted "initial [ok PNone]" docs_request]
  by (simp add: no_key_config_def initial_def)

section \<open>The default configuration\<close>

lemma setitem_static_config:
  "setitem static_config ''knowledge_id'' v = static_config @ [(''knowledge_id'', v)]"
  by (simp add: static_config_def)

text \<open>
  C6.  \<open>get_default_config\<close> always returns (never an exception), leaves the process state
  as it is (no remote call), and answers the fixed configuration followed by
  \<open>knowledge_id\<close>, which is \<open>None\<close> or the cached identifier, and the cached identifier
  only when it is non-empty: never the empty string.  For a cached string the field is that
  string when non-empty and \<open>None\<close> otherwise.
\<close>

theorem default_config_knowledge_id:
  "(\<exists>k. get_default_config s = (Inr (PDict (static_config @ [(''knowledge_id'', k)])), s)
        \<and> k \<noteq> PStr [] \<and> (k = PNone \<or> (k = default_kb_id s \<and> truthy k)))
   \<and> fst (get_default_config (s\<lparr>default_kb_id := PStr i\<rparr>)) =
       Inr (PDict (static_config @ [(''knowledge_id'', if i = [] then PNone else PStr i)]))
   \<and> fst (get_default_config (s\<lparr>default_kb_id := PNone\<rparr>)) =
       Inr (PDict (static_config @ [(''knowledge_id'', PNone)]))"
  by (auto simp: get_default_config_def setitem_static_config)

theorem default_config_knowledge_id_witness:
  "fst (get_default_config (startup_event no_key_config scripted (initial []))) =
       Inr (PDict (static_config @ [(''knowledge_id'', PNone)]))
   \<and> fst (get_default_config ((initial [])\<lparr>default_kb_id := PStr ''kb_123''\<rparr>)) =
       Inr (PDict (static_config @ [(''knowledge_id'', PStr ''kb_123'')]))
   \<and> fst (get_default_config ((initial [])\<lparr>default_kb_id := PStr ''''\<rparr>)) =
       Inr (PDict (static_config @ [(''knowledge_id'', PNone)]))"
proof -
  have a: "startup_event no_key_config scripted (initial []) =
      (print [Lit ''WARNING: Cannot create default KB - API key missing''] (initial []))\<lparr>default_kb_id := PNone\<rparr>"
    by (simp add: startup_event_def no_key_config_def print_def initial_def)
  note w1 = default_config_knowledge_id [of "initial []" "''kb_123''", THEN conjunct2, THEN conjunct1]
  note w2 = default_config_knowledge_id [of "initial []" "''''", THEN conjunct2, THEN conjunct1]
  note w3 = default_config_knowledge_id
      [of "print [Lit ''WARNING: Cannot create default KB - API key missing''] (initial [])" "''''",
       THEN conjunct2, THEN conjunct2]
  show ?thesis
    unfolding a using w1 w2 w3 by simp
qed

text \<open>
  C10.  The object returned by \<open>get_default_config\<close> always has the key \<open>knowledge_id\<close>:
  when no identifier is cached, or the cached value is not true (the empty string, say),
  the key is there with the value \<open>None\<close>.
\<close>

theorem default_config_has_knowledge_id_key:
  "\<exists>d. fst (get_default_config s) = Inr (PDict d)
       \<and> ''knowledge_id'' \<in> fst ` set d
       \<and> map_of d ''knowledge_id'' = Some (if truthy (default_kb_id s) then default_kb_id s else PNone)"
  by (simp add: get_default_config_def static_config_def)

theorem default_config_has_knowledge_id_key_witness:
  "(\<exists>d. fst (get_default_config (initial [])) = Inr (PDict d)
       \<and> ''knowledge_id'' \<in> fst ` set d \<and> map_of d ''knowledge_id'' = Some PNone)
   \<and> (\<exists>d. fst (get_default_config ((initial [])\<lparr>default_kb_id := PStr ''''\<rparr>)) = Inr (PDict d)
       \<and> ''knowledge_id'' \<in> fst ` set d \<and> map_of d ''knowledge_id'' = Some PNone)"
  using default_config_has_knowledge_id_key [of "initial []"]
    default_config_has_knowledge_id_key [of "(initial [])\<lparr>default_kb_id := PStr ''''\<rparr>"]
  by (simp add: initial_def)

section \<open>Extraction of the identifier\<close>

lemma extract_id_envelope:
  "dict_get data ''data'' (PDict []) = Inr (PDict d) \<Longrightarrow>
     extract_id data = Inr (or_else (entry_get d ''knowledge_base_id'') (entry_get d ''id''))"
  by (simp add: extract_id_def entry_get_def or_else_def)

lemma create_knowledge_base_extracted:
  assumes "HEYGEN_API_KEY cfg = Some key" "key \<noteq> []"
    and "client (create_request cfg key (name request) (opening request) (prompt request)) (remote s)
           = (Inr r, w)"
    and "is_success r" "decoded r = Some data" "extract_id data = Inr v" "truthy v"
  shows "create_knowledge_base cfg client request s =
     (Inr (PDict [(''knowledge_base_id'', v)]),
      s\<lparr>remote := w, outbound := outbound s @
         [create_request cfg key (name request) (opening request) (prompt request)]\<rparr>)"
proof -
  have f: "fetch_json client
             (create_request cfg key (name request) (opening request) (prompt request)) s =
     (Inr data, s\<lparr>remote := w, outbound := outbound s @
         [create_request cfg key (name request) (opening request) (prompt request)]\<rparr>)"
    using assms(3-5) by (rule fetch_json_data)
  show ?thesis
    using assms(1,2,6,7) f
    by (simp add: create_knowledge_base_def create_knowledge_base_try_def)
qed

lemma startup_event_extracted:
  assumes "HEYGEN_API_KEY cfg = Some key" "key \<noteq> []"
    and "client (create_request cfg key default_name default_opening default_prompt) (remote s)
           = (Inr r, w)"
    and "is_success r" "decoded r = Some data" "extract_id data = Inr v" "truthy v"
  shows "default_kb_id (startup_event cfg client s) = v
     \<and> outbound (startup_event cfg client s) =
         outbound s @ [create_request cfg key default_name default_opening default_prompt]"
proof -
  let ?s0 = "print [Lit ''Creating default knowledge base...''] s"
  have c: "client (create_request cfg key default_name default_opening default_prompt) (remote ?s0)
           = (Inr r, w)"
    using assms(3) by (simp add: print_def)
  have f: "fetch_json client
             (create_request cfg key default_name default_opening default_prompt) ?s0 =
     (Inr data, ?s0\<lparr>remote := w, outbound := outbound ?s0 @
         [create_request cfg key default_name default_opening default_prompt]\<rparr>)"
    using c assms(4,5) by (rule fetch_json_data)
  show ?thesis
    using assms(1,2,6,7) f
    by (simp add: startup_event_def startup_try_def print_def)
qed

text \<open>
  C2.  For a successful create response whose \<open>data\<close> envelope is a dict, the identifier
  extracted is the envelope's \<open>knowledge_base_id\<close> when that is non-empty and its \<open>id\<close>
  otherwise.  When the value extracted is non-empty, \<open>create_knowledge_base\<close> responds
  \<open>{knowledge_base_id: value}\<close>, and startup provisioning, which extracts in the same order,
  caches the value.  The witness has the response \<open>{data: {id: "kb_123"}}\<close>, answered with
  \<open>{knowledge_base_id: "kb_123"}\<close>.
\<close>

theorem identifier_extraction_order:
  assumes "HEYGEN_API_KEY cfg = Some key" "key \<noteq> []"
    and "is_success r" "decoded r = Some data"
    and "dict_get data ''data'' (PDict []) = Inr (PDict d)"
  shows "extract_id data = Inr (or_else (entry_get d ''knowledge_base_id'') (entry_get d ''id''))
     \<and> (truthy (or_else (entry_get d ''knowledge_base_id'') (entry_get d ''id''))
          \<and> client (create_request cfg key (name request) (opening request) (prompt request))
               (remote s) = (Inr r, w)
        \<longrightarrow> fst (create_knowledge_base cfg client request s) =
              Inr (PDict [(''knowledge_base_id'',
                     or_else (entry_get d ''knowledge_base_id'') (entry_get d ''id''))]))
     \<and> (truthy (or_else (entry_get d ''knowledge_base_id'') (entry_get d ''id''))
          \<and> client (create_request cfg key default_name default_opening default_prompt)
               (remote s) = (Inr r, w)
        \<longrightarrow> default_kb_id (startup_event cfg client s) =
              or_else (entry_get d ''knowledge_base_id'') (entry_get d ''id''))"
proof -
  note e = extract_id_envelope [OF assms(5)]
  show ?thesis
  proof (intro conjI impI)
    show "extract_id data = Inr (or_else (entry_get d ''knowledge_base_id'') (entry_get d ''id''))"
      by (rule e)
  next
    assume h: "truthy (or_else (entry_get d ''knowledge_base_id'') (entry_get d ''id''))
          \<and> client (create_request cfg key (name request) (opening request) (prompt request))
               (remote s) = (Inr r, w)"
    show "fst (create_knowledge_base cfg client request s) =
              Inr (PDict [(''knowledge_base_id'',
                     or_else (entry_get d ''knowledge_base_id'') (entry_get d ''id''))])"
      using assms(1,2) conjunct2 [OF h] assms(3,4) e conjunct1 [OF h]
      by (simp add: create_knowledge_base_extracted)
  next
    assume h: "truthy (or_else (entry_get d ''knowledge_base_id'') (entry_get d ''id''))
          \<and> client (create_request cfg key default_name default_opening default_prompt)
               (remote s) = (Inr r, w)"
    show "default_kb_id (startup_event cfg client s) =
              or_else (entry_get d ''knowledge_base_id'') (entry_get d ''id'')"
      using assms(1,2) conjunct2 [OF h] assms(3,4) e conjunct1 [OF h]
      by (simp add: startup_event_extracted)
  qed
qed

theorem identifier_extraction_order_witness:
  "fst (create_knowledge_base test_config scripted docs_request
          (initial [ok (PDict [(''data'', PDict [(''id'', PStr ''kb_123'')])])]))
     = Inr (PDict [(''knowledge_base_id'', PStr ''kb_123'')])
   \<and> default_kb_id (startup_event test_config scripted
          (initial [ok (PDict [(''data'', PDict [(''id'', PStr ''kb_123'')])])])) = PStr ''kb_123''
   \<and> extract_id (PDict [(''data'', PDict [(''id'', PStr ''kb_1''), (''knowledge_base_id'', PStr ''kb_2'')])])
     = Inr (PStr ''kb_2'')
   \<and> extract_id (PDict [(''data'', PDict [(''knowledge_base_id'', PStr ''''), (''id'', PStr ''kb_1'')])])
     = Inr (PStr ''kb_1'')"
proof -
  note t = identifier_extraction_order [of test_config "''test-key''"
      "Response 200 [] (Some (PDict [(''data'', PDict [(''id'', PStr ''kb_123'')])]))"
      "PDict [(''data'', PDict [(''id'', PStr ''kb_123'')])]"
      "[(''id'', PStr ''kb_123'')]" scripted docs_request
      "initial [ok (PDict [(''data'', PDict [(''id'', PStr ''kb_123'')])])]" "[]"]
  have a: "fst (create_knowledge_base test_config scripted docs_request
          (initial [ok (PDict [(''data'', PDict [(''id'', PStr ''kb_123'')])])]))
     = Inr (PDict [(''knowledge_base_id'', PStr ''kb_123'')])"
    using t by (simp add: eval_defs or_else_def)
  have b: "default_kb_id (startup_event test_config scripted
          (initial [ok (PDict [(''data'', PDict [(''id'', PStr ''kb_123'')])])])) = PStr ''kb_123''"
    using t by (simp add: eval_defs or_else_def)
  have c: "extract_id (PDict [(''data'', PDict [(''id'', PStr ''kb_1''), (''knowledge_base_id'', PStr ''kb_2'')])])
     = Inr (PStr ''kb_2'')"
    using identifier_extraction_order [of test_config "''test-key''"
      "Response 200 [] (Some (PDict [(''data'', PDict [(''id'', PStr ''kb_1''), (''knowledge_base_id'', PStr ''kb_2'')])]))"
      "PDict [(''data'', PDict [(''id'', PStr ''kb_1''), (''knowledge_base_id'', PStr ''kb_2'')])]"
      "[(''id'', PStr ''kb_1''), (''knowledge_base_id'', PStr ''kb_2'')]"]
    by (simp add: eval_defs or_else_def)
  have d: "extract_id (PDict [(''data'', PDict [(''knowledge_base_id'', PStr ''''), (''id'', PStr ''kb_1'')])])
     = Inr (PStr ''kb_1'')"
    using identifier_extraction_order [of test_config "''test-key''"
      "Response 200 [] (Some (PDict [(''data'', PDict [(''knowledge_base_id'', PStr ''''), (''id'', PStr ''kb_1'')])]))"
      "PDict [(''data'', PDict [(''knowledge_base_id'', PStr ''''), (''id'', PStr ''kb_1'')])]"
      "[(''knowledge_base_id'', PStr ''''), (''id'', PStr ''kb_1'')]"]
    by (simp add: eval_defs or_else_def)
  show ?thesis using a b c d by simp
qed

section \<open>Failures of the remote calls\<close>

lemma fetch_json_Inl:
  "fetch_json client rq s = (Inl e, s') \<Longrightarrow>
     (\<exists>m. e = RequestError m \<and> fst (client rq (remote s)) = Inl m)
     \<or> (\<exists>r. e = HTTPStatusError r \<and> \<not> is_success r \<and> fst (client rq (remote s)) = Inr r)
     \<or> e = JSONDecodeError"
  by (auto simp: fetch_json_def send_def raise_for_status_def json_def
      split: prod.splits sum.splits if_splits option.splits)

lemma fetch_json_remote:
  "fetch_json client rq s = (res, s') \<Longrightarrow> remote s' = snd (client rq (remote s))"
  by (auto simp: fetch_json_def send_def split: prod.splits sum.splits)

lemma dict_get_Inl: "dict_get x k dflt = Inl e \<Longrightarrow> e = AttributeError"
  by (cases x) auto

lemma getitem_Inl: "getitem x k = Inl e \<Longrightarrow> e = KeyError \<or> e = TypeError"
  by (cases x) (auto split: option.splits)

lemma slice_to_Inl: "slice_to x n = Inl e \<Longrightarrow> e = TypeError"
  by (cases x) auto

lemma iterate_Inl: "iterate x = Inl e \<Longrightarrow> e = TypeError"
  by (cases x) auto

lemma extract_id_Inl: "extract_id data = Inl e \<Longrightarrow> e = AttributeError"
  by (auto simp: extract_id_def split: sum.splits if_splits dest: dict_get_Inl)

lemma kb_list_of_Inl: "kb_list_of data = Inl e \<Longrightarrow> e = AttributeError"
  by (auto simp: kb_list_of_def split: sum.splits dest: dict_get_Inl)

lemma kb_matches_Inl: "kb_matches kb n opn p = Inl e \<Longrightarrow> e = AttributeError"
  by (auto simp: kb_matches_def split: sum.splits if_splits dest: dict_get_Inl)

lemma scan_kb_list_Inl: "scan_kb_list kbs n opn p v = Inl e \<Longrightarrow> e = AttributeError"
  by (induction kbs) (auto split: sum.splits if_splits dest: kb_matches_Inl dict_get_Inl)

text \<open>What the body of get_access_token's try can raise.\<close>

lemma get_access_token_try_Inl:
  assumes "get_access_token_try cfg key client s = (Inl e, s')"
  shows "(\<exists>r. e = HTTPStatusError r \<and> \<not> is_success r
              \<and> fst (client (token_request cfg key) (remote s)) = Inr r)
         \<or> (\<exists>m. e = RequestError m) \<or> e = JSONDecodeError \<or> e = KeyError \<or> e = TypeError"
  using assms
  by (auto simp: get_access_token_try_def split: prod.splits sum.splits
      dest!: fetch_json_Inl getitem_Inl slice_to_Inl)

lemma find_by_match_Inl:
  assumes "find_by_match client cfg key n opn p v s = (Inl e, s')"
  shows "(\<exists>r. e = HTTPStatusError r \<and> \<not> is_success r
              \<and> fst (client (list_request cfg key) (remote s)) = Inr r)
         \<or> (\<exists>m. e = RequestError m) \<or> e = JSONDecodeError \<or> e = AttributeError \<or> e = TypeError"
  using assms
  by (auto simp: find_by_match_def split: prod.splits sum.splits
      dest!: fetch_json_Inl kb_list_of_Inl iterate_Inl scan_kb_list_Inl)

lemma create_knowledge_base_try_Inl:
  assumes "create_knowledge_base_try cfg key client request s = (Inl e, s')"
  shows "(\<exists>r. e = HTTPStatusError r \<and> \<not> is_success r
              \<and> (fst (client (create_request cfg key (name request) (opening request) (prompt request))
                         (remote s)) = Inr r
                   \<or> fst (client (list_request cfg key)
                         (snd (client (create_request cfg key (name request) (opening request)
                                 (prompt request)) (remote s)))) = Inr r))
         \<or> (\<exists>m. e = RequestError m) \<or> e = JSONDecodeError \<or> e = AttributeError \<or> e = TypeError
         \<or> e = HTTPException 500 (Detail ''Failed to retrieve knowledge base ID'')"
proof (cases "fetch_json client
       (create_request cfg key (name request) (opening request) (prompt request)) s")
  case (Pair res s1)
  note rem = fetch_json_remote [OF Pair]
  show ?thesis
  proof (cases res)
    case (Inl e1)
    with Pair assms have "e = e1" by (simp add: create_knowledge_base_try_def)
    with Pair Inl fetch_json_Inl [of client _ s e s1] show ?thesis by auto
  next
    case (Inr data)
    show ?thesis
    proof (cases "extract_id data")
      case (Inl e1)
      with Pair Inr assms have "e = e1" by (simp add: create_knowledge_base_try_def)
      with Inl extract_id_Inl show ?thesis by auto
    next
      case ex: (Inr v)
      show ?thesis
      proof (cases "truthy v")
        case True
        with Pair Inr ex assms show ?thesis by (simp add: create_knowledge_base_try_def)
      next
        case False
        obtain res2 s2 where f: "find_by_match client cfg key (name request) (opening request)
                          (prompt request) v s1 = (res2, s2)" by force
        show ?thesis
        proof (cases res2)
          case (Inl e2)
          with Pair Inr ex False f assms have "e = e2" by (simp add: create_knowledge_base_try_def)
          with f Inl find_by_match_Inl [of client cfg key _ _ _ v s1 e s2] rem show ?thesis by auto
        next
          case (Inr v2)
          with Pair \<open>res = Inr data\<close> ex False f assms show ?thesis
            by (auto simp: create_knowledge_base_try_def split: if_splits)
        qed
      qed
    qed
  qed
qed


lemma get_access_token_status:
  assumes "HEYGEN_API_KEY cfg = Some key" "key \<noteq> []"
    and "client (token_request cfg key) (remote s) = (Inr r, w)" "\<not> is_success r"
  shows "fst (get_access_token cfg client s) =
           Inl (HTTPException (status_code r) (Detail ''Failed to retrieve access token''))"
proof -
  have "fetch_json client (token_request cfg key) s =
          (Inl (HTTPStatusError r), s\<lparr>remote := w, outbound := outbound s @ [token_request cfg key]\<rparr>)"
    using assms(3,4) by (rule fetch_json_status)
  then show ?thesis
    using assms(1,2) by (simp add: get_access_token_def get_access_token_try_def)
qed

lemma get_access_token_raises:
  assumes "HEYGEN_API_KEY cfg = Some key" "key \<noteq> []"
    and "client (token_request cfg key) (remote s) = (Inl m, w)"
  shows "fst (get_access_token cfg client s) = Inl (HTTPException 500 (Str (RequestError m)))"
proof -
  have "fetch_json client (token_request cfg key) s =
          (Inl (RequestError m), s\<lparr>remote := w, outbound := outbound s @ [token_request cfg key]\<rparr>)"
    using assms(3) by (rule fetch_json_raises)
  then show ?thesis
    using assms(1,2) by (simp add: get_access_token_def get_access_token_try_def)
qed

lemma get_access_token_undecoded:
  assumes "HEYGEN_API_KEY cfg = Some key" "key \<noteq> []"
    and "client (token_request cfg key) (remote s) = (Inr r, w)" "is_success r" "decoded r = None"
  shows "fst (get_access_token cfg client s) = Inl (HTTPException 500 (Str JSONDecodeError))"
proof -
  have "fetch_json client (token_request cfg key) s =
          (Inl JSONDecodeError, s\<lparr>remote := w, outbound := outbound s @ [token_request cfg key]\<rparr>)"
    using assms(3-5) by (rule fetch_json_undecoded)
  then show ?thesis
    using assms(1,2) by (simp add: get_access_token_def get_access_token_try_def)
qed

lemma get_access_token_failure:
  assumes "HEYGEN_API_KEY cfg = Some key" "key \<noteq> []"
    and "fst (get_access_token cfg client s) = Inl e"
  shows "(\<exists>r. e = HTTPException (status_code r) (Detail ''Failed to retrieve access token'')
              \<and> \<not> is_success r \<and> fst (client (token_request cfg key) (remote s)) = Inr r)
         \<or> (\<exists>e'. e = HTTPException 500 (Str e') \<and> (\<forall>r. e' \<noteq> HTTPStatusError r))"
proof (cases "get_access_token_try cfg key client s")
  case (Pair res s')
  show ?thesis
  proof (cases res)
    case (Inl e0)
    note c = get_access_token_try_Inl [OF Pair [unfolded Inl]]
    have e: "e = fst (get_access_token_except e0 s')"
      using assms Pair Inl by (simp add: get_access_token_def split: prod.splits)
    from c show ?thesis unfolding e by auto
  next
    case (Inr v)
    with assms Pair show ?thesis by (simp add: get_access_token_def)
  qed
qed

lemma create_knowledge_base_status:
  assumes "HEYGEN_API_KEY cfg = Some key" "key \<noteq> []"
    and "client (create_request cfg key (name request) (opening request) (prompt request)) (remote s)
           = (Inr r, w)" "\<not> is_success r"
  shows "fst (create_knowledge_base cfg client request s) =
           Inl (HTTPException (status_code r) (Detail ''Failed to create or retrieve knowledge base''))"
proof -
  have "fetch_json client (create_request cfg key (name request) (opening request) (prompt request)) s =
          (Inl (HTTPStatusError r), s\<lparr>remote := w, outbound := outbound s @
             [create_request cfg key (name request) (opening request) (prompt request)]\<rparr>)"
    using assms(3,4) by (rule fetch_json_status)
  then show ?thesis
    using assms(1,2) by (simp add: create_knowledge_base_def create_knowledge_base_try_def)
qed

lemma create_knowledge_base_raises:
  assumes "HEYGEN_API_KEY cfg = Some key" "key \<noteq> []"
    and "client (create_request cfg key (name request) (opening request) (prompt request)) (remote s)
           = (Inl m, w)"
  shows "fst (create_knowledge_base cfg client request s) =
           Inl (HTTPException 500 (Str (RequestError m)))"
proof -
  have "fetch_json client (create_request cfg key (name request) (opening request) (prompt request)) s =
          (Inl (RequestError m), s\<lparr>remote := w, outbound := outbound s @
             [create_request cfg key (name request) (opening request) (prompt request)]\<rparr>)"
    using assms(3) by (rule fetch_json_raises)
  then show ?thesis
    using assms(1,2) by (simp add: create_knowledge_base_def create_knowledge_base_try_def)
qed

lemma create_knowledge_base_undecoded:
  assumes "HEYGEN_API_KEY cfg = Some key" "key \<noteq> []"
    and "client (create_request cfg key (name request) (opening request) (prompt request)) (remote s)
           = (Inr r, w)" "is_success r" "decoded r = None"
  shows "fst (create_knowledge_base cfg client request s) =
           Inl (HTTPException 500 (Str JSONDecodeError))"
proof -
  have "fetch_json client (create_request cfg key (name request) (opening request) (prompt request)) s =
          (Inl JSONDecodeError, s\<lparr>remote := w, outbound := outbound s @
             [create_request cfg key (name request) (opening request) (prompt request)]\<rparr>)"
    using assms(3-5) by (rule fetch_json_undecoded)
  then show ?thesis
    using assms(1,2) by (simp add: create_knowledge_base_def create_knowledge_base_try_def)
qed

text \<open>The list call of the fallback fails with a status.\<close>

lemma create_knowledge_base_list_status:
  assumes "HEYGEN_API_KEY cfg = Some key" "key \<noteq> []"
    and "client (create_request cfg key (name request) (opening request) (prompt request)) (remote s)
           = (Inr r, w)" "is_success r" "decoded r = Some data" "extract_id data = Inr v"
      "\<not> truthy v"
    and "client (list_request cfg key) w = (Inr r', w')" "\<not> is_success r'"
  shows "fst (create_knowledge_base cfg client request s) =
           Inl (HTTPException (status_code r') (Detail ''Failed to create or retrieve knowledge base''))"
proof -
  let ?s1 = "s\<lparr>remote := w, outbound := outbound s @
             [create_request cfg key (name request) (opening request) (prompt request)]\<rparr>"
  have f1: "fetch_json client (create_request cfg key (name request) (opening request) (prompt request)) s =
          (Inr data, ?s1)"
    using assms(3-5) by (rule fetch_json_data)
  have l: "client (list_request cfg key) (remote ?s1) = (Inr r', w')"
    using assms(8) by simp
  have f2: "fetch_json client (list_request cfg key) ?s1 =
          (Inl (HTTPStatusError r'), ?s1\<lparr>remote := w', outbound := outbound ?s1 @ [list_request cfg key]\<rparr>)"
    using l assms(9) by (rule fetch_json_status)
  show ?thesis
    using assms(1,2,6,7) f1 f2
    by (simp add: create_knowledge_base_def create_knowledge_base_try_def find_by_match_def)
qed

lemma create_knowledge_base_except_cases:
  "(\<forall>r. e \<noteq> HTTPStatusError r) \<Longrightarrow> create_knowledge_base_except e = HTTPException 500 (Str e)"
  by (cases e) auto

lemma create_knowledge_base_failure:
  assumes "HEYGEN_API_KEY cfg = Some key" "key \<noteq> []"
    and "fst (create_knowledge_base cfg client request s) = Inl e"
  shows "(\<exists>r. e = HTTPException (status_code r) (Detail ''Failed to create or retrieve knowledge base'')
              \<and> \<not> is_success r
              \<and> (fst (client (create_request cfg key (name request) (opening request) (prompt request))
                         (remote s)) = Inr r
                   \<or> fst (client (list_request cfg key)
                         (snd (client (create_request cfg key (name request) (opening request)
                                 (prompt request)) (remote s)))) = Inr r))
         \<or> (\<exists>e'. e = HTTPException 500 (Str e') \<and> (\<forall>r. e' \<noteq> HTTPStatusError r))"
proof (cases "create_knowledge_base_try cfg key client request s")
  case (Pair res s')
  show ?thesis
  proof (cases res)
    case (Inl e0)
    note c = create_knowledge_base_try_Inl [OF Pair [unfolded Inl]]
    have e: "e = create_knowledge_base_except e0"
      using assms Pair Inl by (simp add: create_knowledge_base_def)
    from c show ?thesis unfolding e by auto
  next
    case (Inr v)
    with assms Pair show ?thesis by (simp add: create_knowledge_base_def)
  qed
qed


text \<open>
  C5.  With the credential present: a remote response with a non-success status makes
  \<open>get_access_token\<close> and \<open>create_knowledge_base\<close> (on its create call, and on the list call of
  its fallback) fail with an \<open>HTTPException\<close> of exactly that status and a fixed detail; an
  exception of the client (network) and a body that is not JSON (parse) give status 500
  with \<^verbatim>\<open>str(e)\<close> as detail.  And every failure of the two handlers is of one of the two
  kinds: the status of a non-success response received, or 500 with the description of an
  exception that is not a status error.
\<close>

theorem remote_failures_map_to_http_errors:
  assumes "HEYGEN_API_KEY cfg = Some key" "key \<noteq> []"
  shows
   "(client (token_request cfg key) (remote s) = (Inr r, w) \<and> \<not> is_success r \<longrightarrow>
       fst (get_access_token cfg client s) =
         Inl (HTTPException (status_code r) (Detail ''Failed to retrieve access token'')))
    \<and> (client (create_request cfg key (name request) (opening request) (prompt request)) (remote s)
          = (Inr r, w) \<and> \<not> is_success r \<longrightarrow>
       fst (create_knowledge_base cfg client request s) =
         Inl (HTTPException (status_code r) (Detail ''Failed to create or retrieve knowledge base'')))
    \<and> (client (create_request cfg key (name request) (opening request) (prompt request)) (remote s)
          = (Inr r, w) \<and> is_success r \<and> decoded r = Some data \<and> extract_id data = Inr v
        \<and> \<not> truthy v \<and> client (list_request cfg key) w = (Inr r', w') \<and> \<not> is_success r' \<longrightarrow>
       fst (create_knowledge_base cfg client request s) =
         Inl (HTTPException (status_code r') (Detail ''Failed to create or retrieve knowledge base'')))
    \<and> (client (token_request cfg key) (remote s) = (Inl m, w) \<longrightarrow>
       fst (get_access_token cfg client s) = Inl (HTTPException 500 (Str (RequestError m))))
    \<and> (client (create_request cfg key (name request) (opening request) (prompt request)) (remote s)
          = (Inl m, w) \<longrightarrow>
       fst (create_knowledge_base cfg client request s) =
         Inl (HTTPException 500 (Str (RequestError m))))
    \<and> (client (token_request cfg key) (remote s) = (Inr r, w) \<and> is_success r \<and> decoded r = None \<longrightarrow>
       fst (get_access_token cfg client s) = Inl (HTTPException 500 (Str JSONDecodeError)))
    \<and> (client (create_request cfg key (name request) (opening request) (prompt request)) (remote s)
          = (Inr r, w) \<and> is_success r \<and> decoded r = None \<longrightarrow>
       fst (create_knowledge_base cfg client request s) =
         Inl (HTTPException 500 (Str JSONDecodeError)))
    \<and> (fst (get_access_token cfg client s) = Inl e \<longrightarrow>
         (\<exists>r. e = HTTPException (status_code r) (Detail ''Failed to retrieve access token'')
              \<and> \<not> is_success r \<and> fst (client (token_request cfg key) (remote s)) = Inr r)
         \<or> (\<exists>e'. e = HTTPException 500 (Str e') \<and> (\<forall>r. e' \<noteq> HTTPStatusError r)))
    \<and> (fst (create_knowledge_base cfg client request s) = Inl e \<longrightarrow>
         (\<exists>r. e = HTTPException (status_code r) (Detail ''Failed to create or retrieve knowledge base'')
              \<and> \<not> is_success r
              \<and> (fst (client (create_request cfg key (name request) (opening request) (prompt request))
                         (remote s)) = Inr r
                   \<or> fst (client (list_request cfg key)
                         (snd (client (create_request cfg key (name request) (opening request)
                                 (prompt request)) (remote s)))) = Inr r))
         \<or> (\<exists>e'. e = HTTPException 500 (Str e') \<and> (\<forall>r. e' \<noteq> HTTPStatusError r)))"
proof (intro conjI impI)
  assume "client (token_request cfg key) (remote s) = (Inr r, w) \<and> \<not> is_success r"
  then show "fst (get_access_token cfg client s) =
         Inl (HTTPException (status_code r) (Detail ''Failed to retrieve access token''))"
    using assms get_access_token_status [of cfg key client s r w] by blast
next
  assume "client (create_request cfg key (name request) (opening request) (prompt request)) (remote s)
          = (Inr r, w) \<and> \<not> is_success r"
  then show "fst (create_knowledge_base cfg client request s) =
         Inl (HTTPException (status_code r) (Detail ''Failed to create or retrieve knowledge base''))"
    using assms create_knowledge_base_status [of cfg key client request s r w] by blast
next
  assume "client (create_request cfg key (name request) (opening request) (prompt request)) (remote s)
          = (Inr r, w) \<and> is_success r \<and> decoded r = Some data \<and> extract_id data = Inr v
        \<and> \<not> truthy v \<and> client (list_request cfg key) w = (Inr r', w') \<and> \<not> is_success r'"
  then show "fst (create_knowledge_base cfg client request s) =
         Inl (HTTPException (status_code r') (Detail ''Failed to create or retrieve knowledge base''))"
    using assms create_knowledge_base_list_status [of cfg key client request s r w data v r' w']
    by blast
next
  assume "client (token_request cfg key) (remote s) = (Inl m, w)"
  then show "fst (get_access_token cfg client s) = Inl (HTTPException 500 (Str (RequestError m)))"
    using assms get_access_token_raises [of cfg key client s m w] by blast
next
  assume "client (create_request cfg key (name request) (opening request) (prompt request)) (remote s)
          = (Inl m, w)"
  then show "fst (create_knowledge_base cfg client request s) =
         Inl (HTTPException 500 (Str (RequestError m)))"
    using assms create_knowledge_base_raises [of cfg key client request s m w] by blast
next
  assume "client (token_request cfg key) (remote s) = (Inr r, w) \<and> is_success r \<and> decoded r = None"
  then show "fst (get_access_token cfg client s) = Inl (HTTPException 500 (Str JSONDecodeError))"
    using assms get_access_token_undecoded [of cfg key client s r w] by blast
next
  assume "client (create_request cfg key (name request) (opening request) (prompt request)) (remote s)
          = (Inr r, w) \<and> is_success r \<and> decoded r = None"
  then show "fst (create_knowledge_base cfg client request s) =
         Inl (HTTPException 500 (Str JSONDecodeError))"
    using assms create_knowledge_base_undecoded [of cfg key client request s r w] by blast
next
  assume "fst (get_access_token cfg client s) = Inl e"
  then show "(\<exists>r. e = HTTPException (status_code r) (Detail ''Failed to retrieve access token'')
              \<and> \<not> is_success r \<and> fst (client (token_request cfg key) (remote s)) = Inr r)
         \<or> (\<exists>e'. e = HTTPException 500 (Str e') \<and> (\<forall>r. e' \<noteq> HTTPStatusError r))"
    using assms by (rule get_access_token_failure [rotated 2])
next
  assume "fst (create_knowledge_base cfg client request s) = Inl e"
  then show "(\<exists>r. e = HTTPException (status_code r) (Detail ''Failed to create or retrieve knowledge base'')
              \<and> \<not> is_success r
              \<and> (fst (client (create_request cfg key (name request) (opening request) (prompt request))
                         (remote s)) = Inr r
                   \<or> fst (client (list_request cfg key)
                         (snd (client (create_request cfg key (name request) (opening request)
                                 (prompt request)) (remote s)))) = Inr r))
         \<or> (\<exists>e'. e = HTTPException 500 (Str e') \<and> (\<forall>r. e' \<noteq> HTTPStatusError r))"
    using assms by (rule create_knowledge_base_failure [rotated 2])
qed

theorem remote_failures_map_to_http_errors_witness:
  "fst (get_access_token test_config scripted (initial [Inr (Response 401 ''Unauthorized'' None)]))
     = Inl (HTTPException 401 (Detail ''Failed to retrieve access token''))
   \<and> fst (create_knowledge_base test_config scripted docs_request
            (initial [Inr (Response 503 ''Service Unavailable'' None)]))
     = Inl (HTTPException 503 (Detail ''Failed to create or retrieve knowledge base''))
   \<and> fst (get_access_token test_config scripted (initial []))
     = Inl (HTTPException 500 (Str (RequestError ''connection refused'')))
   \<and> fst (create_knowledge_base test_config scripted docs_request
            (initial [Inr (Response 200 ''<html>'' None)]))
     = Inl (HTTPException 500 (Str JSONDecodeError))"
proof -
  have a: "fst (get_access_token test_config scripted (initial [Inr (Response 401 ''Unauthorized'' None)]))
     = Inl (HTTPException 401 (Detail ''Failed to retrieve access token''))"
    using remote_failures_map_to_http_errors [of test_config "''test-key''" scripted
        "initial [Inr (Response 401 ''Unauthorized'' None)]" "Response 401 ''Unauthorized'' None" "[]"]
    by (simp add: eval_defs)
  have b: "fst (create_knowledge_base test_config scripted docs_request
            (initial [Inr (Response 503 ''Service Unavailable'' None)]))
     = Inl (HTTPException 503 (Detail ''Failed to create or retrieve knowledge base''))"
    using remote_failures_map_to_http_errors [of test_config "''test-key''" scripted
        "initial [Inr (Response 503 ''Service Unavailable'' None)]"
        "Response 503 ''Service Unavailable'' None" "[]" docs_request]
    by (simp add: eval_defs)
  have c: "fst (get_access_token test_config scripted (initial []))
     = Inl (HTTPException 500 (Str (RequestError ''connection refused'')))"
    using remote_failures_map_to_http_errors [of test_config "''test-key''" scripted
        "initial []" _ "[]" _ _ _ _ _ "''connection refused''"]
    by (simp add: eval_defs)
  have d: "fst (create_knowledge_base test_config scripted docs_request
            (initial [Inr (Response 200 ''<html>'' None)]))
     = Inl (HTTPException 500 (Str JSONDecodeError))"
    using remote_failures_map_to_http_errors [of test_config "''test-key''" scripted
        "initial [Inr (Response 200 ''<html>'' None)]"
        "Response 200 ''<html>'' None" "[]" docs_request]
    by (simp add: eval_defs)
  show ?thesis using a b c d by simp
qed

section \<open>Failures of startup provisioning\<close>

lemma startup_event_missing_key:
  "HEYGEN_API_KEY cfg = None \<or> HEYGEN_API_KEY cfg = Some [] \<Longrightarrow>
     startup_event cfg client s = print [Lit ''WARNING: Cannot create default KB - API key missing''] s"
  by (auto simp: startup_event_def)

lemma startup_event_raised:
  assumes "HEYGEN_API_KEY cfg = Some key" "key \<noteq> []"
    and "startup_try cfg key client s = (Inl e, s')"
  shows "startup_event cfg client s =
           (print [Lit ''Error creating default KB on startup: '', Exn e] s')\<lparr>default_kb_id := PNone\<rparr>"
  using assms by (simp add: startup_event_def)

lemma startup_try_create_raised:
  assumes "fetch_json client (create_request cfg key default_name default_opening default_prompt)
             (print [Lit ''Creating default knowledge base...''] s) = (Inl e, s1)"
  shows "startup_try cfg key client s = (Inl e, s1)"
  using assms by (simp add: startup_try_def)

lemma startup_try_extract_raised:
  assumes "fetch_json client (create_request cfg key default_name default_opening default_prompt)
             (print [Lit ''Creating default knowledge base...''] s) = (Inr data, s1)"
    and "extract_id data = Inl e"
  shows "startup_try cfg key client s = (Inl e, s1)"
  using assms by (simp add: startup_try_def)

lemma startup_try_scan_raised:
  assumes "fetch_json client (create_request cfg key default_name default_opening default_prompt)
             (print [Lit ''Creating default knowledge base...''] s) = (Inr data, s1)"
    and "extract_id data = Inr v" "\<not> truthy v"
    and "find_by_match client cfg key default_name default_opening default_prompt v
           (s1\<lparr>default_kb_id := v\<rparr>) = (Inl e, s2)"
  shows "startup_try cfg key client s = (Inl e, s2)"
  using assms by (simp add: startup_try_def)

text \<open>
  C8.  Startup never fails.  With the API key unset or empty it only prints a warning: no
  request goes out and the cached identifier stays as it was, \<open>None\<close> from the initial
  state.  With the key present, an exception in the create call (sending, status,
  decoding), in the extraction, or in the list call and scan of the fallback is caught: the
  error line is printed, the cached identifier is set to \<open>None\<close>, startup returns, and the
  process serves requests (\<open>get_default_config\<close> then answers \<open>knowledge_id\<close> \<open>None\<close>).
\<close>

theorem startup_failure_not_fatal:
  "(HEYGEN_API_KEY cfg = None \<or> HEYGEN_API_KEY cfg = Some [] \<longrightarrow>
      startup_event cfg client s =
        print [Lit ''WARNING: Cannot create default KB - API key missing''] s
      \<and> default_kb_id (startup_event cfg client (initial w)) = PNone
      \<and> outbound (startup_event cfg client (initial w)) = [])
   \<and> (HEYGEN_API_KEY cfg = Some key \<and> key \<noteq> []
       \<and> (fetch_json client (create_request cfg key default_name default_opening default_prompt)
             (print [Lit ''Creating default knowledge base...''] s) = (Inl e, s')
           \<or> (\<exists>data. fetch_json client
                   (create_request cfg key default_name default_opening default_prompt)
                   (print [Lit ''Creating default knowledge base...''] s) = (Inr data, s')
                 \<and> extract_id data = Inl e)
           \<or> (\<exists>data s1 v. fetch_json client
                   (create_request cfg key default_name default_opening default_prompt)
                   (print [Lit ''Creating default knowledge base...''] s) = (Inr data, s1)
                 \<and> extract_id data = Inr v \<and> \<not> truthy v
                 \<and> find_by_match client cfg key default_name default_opening default_prompt v
                      (s1\<lparr>default_kb_id := v\<rparr>) = (Inl e, s')))
       \<longrightarrow>
      startup_event cfg client s =
        (print [Lit ''Error creating default KB on startup: '', Exn e] s')\<lparr>default_kb_id := PNone\<rparr>
      \<and> default_kb_id (startup_event cfg client s) = PNone
      \<and> last (stdout (startup_event cfg client s)) =
          [Lit ''Error creating default KB on startup: '', Exn e]
      \<and> fst (get_default_config (startup_event cfg client s)) =
          Inr (PDict (static_config @ [(''knowledge_id'', PNone)])))"
proof (intro conjI impI)
  assume k: "HEYGEN_API_KEY cfg = None \<or> HEYGEN_API_KEY cfg = Some []"
  show "startup_event cfg client s =
        print [Lit ''WARNING: Cannot create default KB - API key missing''] s"
    using k by (rule startup_event_missing_key)
  show "default_kb_id (startup_event cfg client (initial w)) = PNone"
    using k by (simp add: startup_event_missing_key print_def initial_def)
  show "outbound (startup_event cfg client (initial w)) = []"
    using k by (simp add: startup_event_missing_key print_def initial_def)
next
  assume h: "HEYGEN_API_KEY cfg = Some key \<and> key \<noteq> []
       \<and> (fetch_json client (create_request cfg key default_name default_opening default_prompt)
             (print [Lit ''Creating default knowledge base...''] s) = (Inl e, s')
           \<or> (\<exists>data. fetch_json client
                   (create_request cfg key default_name default_opening default_prompt)
                   (print [Lit ''Creating default knowledge base...''] s) = (Inr data, s')
                 \<and> extract_id data = Inl e)
           \<or> (\<exists>data s1 v. fetch_json client
                   (create_request cfg key default_name default_opening default_prompt)
                   (print [Lit ''Creating default knowledge base...''] s) = (Inr data, s1)
                 \<and> extract_id data = Inr v \<and> \<not> truthy v
                 \<and> find_by_match client cfg key default_name default_opening default_prompt v
                      (s1\<lparr>default_kb_id := v\<rparr>) = (Inl e, s')))"
  then have t: "startup_try cfg key client s = (Inl e, s')"
    using startup_try_create_raised [of client cfg key s e s']
      startup_try_extract_raised [of client cfg key s _ s' e]
      startup_try_scan_raised [of client cfg key s _ _ _ e s']
    by blast
  have ev: "startup_event cfg client s =
        (print [Lit ''Error creating default KB on startup: '', Exn e] s')\<lparr>default_kb_id := PNone\<rparr>"
    using h t startup_event_raised [of cfg key client s e s'] by blast
  show "startup_event cfg client s =
        (print [Lit ''Error creating default KB on startup: '', Exn e] s')\<lparr>default_kb_id := PNone\<rparr>"
    by (rule ev)
  show "default_kb_id (startup_event cfg client s) = PNone"
    unfolding ev by (simp add: print_def get_default_config_def setitem_static_config)
  show "last (stdout (startup_event cfg client s)) =
          [Lit ''Error creating default KB on startup: '', Exn e]"
    unfolding ev by (simp add: print_def get_default_config_def setitem_static_config)
  show "fst (get_default_config (startup_event cfg client s)) =
          Inr (PDict (static_config @ [(''knowledge_id'', PNone)]))"
    unfolding ev by (simp add: print_def get_default_config_def setitem_static_config)
qed

theorem startup_failure_not_fatal_witness:
  "default_kb_id (startup_event no_key_config scripted (initial [ok PNone])) = PNone
   \<and> outbound (startup_event no_key_config scripted (initial [ok PNone])) = []
   \<and> stdout (startup_event no_key_config scripted (initial [ok PNone])) =
       [[Lit ''WARNING: Cannot create default KB - API key missing'']]
   \<and> default_kb_id (startup_event test_config scripted
         (initial [Inr (Response 500 ''Internal Server Error'' None)])) = PNone
   \<and> last (stdout (startup_event test_config scripted
         (initial [Inr (Response 500 ''Internal Server Error'' None)]))) =
       [Lit ''Error creating default KB on startup: '',
        Exn (HTTPStatusError (Response 500 ''Internal Server Error'' None))]
   \<and> default_kb_id (startup_event test_config scripted
         (initial [ok (PDict [(''data'', PDict [(''id'', PStr [])])])])) = PNone
   \<and> last (stdout (startup_event test_config scripted
         (initial [ok (PDict [(''data'', PDict [(''id'', PStr [])])])]))) =
       [Lit ''Error creating default KB on startup: '', Exn (RequestError ''connection refused'')]"
proof -
  have a: "default_kb_id (startup_event no_key_config scripted (initial [ok PNone])) = PNone
   \<and> outbound (startup_event no_key_config scripted (initial [ok PNone])) = []
   \<and> stdout (startup_event no_key_config scripted (initial [ok PNone])) =
       [[Lit ''WARNING: Cannot create default KB - API key missing'']]"
    using startup_failure_not_fatal [of no_key_config scripted "initial [ok PNone]" "[ok PNone]"]
    by (simp add: no_key_config_def print_def initial_def)
  let ?s1 = "\<lparr>default_kb_id = PNone, remote = [],
              outbound = [create_request test_config ''test-key'' default_name default_opening
                            default_prompt],
              stdout = [[Lit ''Creating default knowledge base...'']]\<rparr>"
  have f: "fetch_json scripted
             (create_request test_config ''test-key'' default_name default_opening default_prompt)
             (print [Lit ''Creating default knowledge base...'']
                (initial [Inr (Response 500 ''Internal Server Error'' None)])) =
           (Inl (HTTPStatusError (Response 500 ''Internal Server Error'' None)), ?s1)"
    by (simp add: fetch_json_def send_def raise_for_status_def is_success_def print_def initial_def)
  have b: "default_kb_id (startup_event test_config scripted
         (initial [Inr (Response 500 ''Internal Server Error'' None)])) = PNone
   \<and> last (stdout (startup_event test_config scripted
         (initial [Inr (Response 500 ''Internal Server Error'' None)]))) =
       [Lit ''Error creating default KB on startup: '',
        Exn (HTTPStatusError (Response 500 ''Internal Server Error'' None))]"
    using f startup_failure_not_fatal [of test_config scripted
        "initial [Inr (Response 500 ''Internal Server Error'' None)]" "[]" "''test-key''"
        "HTTPStatusError (Response 500 ''Internal Server Error'' None)" ?s1]
    by (simp add: test_config_def print_def)
  let ?t2 = "\<lparr>default_kb_id = PStr [], remote = [],
              outbound = [create_request test_config ''test-key'' default_name default_opening
                            default_prompt, list_request test_config ''test-key''],
              stdout = [[Lit ''Creating default knowledge base...'']]\<rparr>"
  have g1: "fetch_json scripted
             (create_request test_config ''test-key'' default_name default_opening default_prompt)
             (print [Lit ''Creating default knowledge base...'']
                (initial [ok (PDict [(''data'', PDict [(''id'', PStr [])])])])) =
           (Inr (PDict [(''data'', PDict [(''id'', PStr [])])]), ?s1)"
    by (simp add: fetch_json_def send_def raise_for_status_def is_success_def json_def print_def
          initial_def ok_def)
  have g2: "find_by_match scripted test_config ''test-key'' default_name default_opening
              default_prompt (PStr []) (?s1\<lparr>default_kb_id := PStr []\<rparr>) =
           (Inl (RequestError ''connection refused''), ?t2)"
    by (simp add: find_by_match_def fetch_json_def send_def)
  have g3: "extract_id (PDict [(''data'', PDict [(''id'', PStr [])])]) = Inr (PStr [])"
    by (simp add: extract_id_def)
  have c: "default_kb_id (startup_event test_config scripted
         (initial [ok (PDict [(''data'', PDict [(''id'', PStr [])])])])) = PNone
   \<and> last (stdout (startup_event test_config scripted
         (initial [ok (PDict [(''data'', PDict [(''id'', PStr [])])])]))) =
       [Lit ''Error creating default KB on startup: '', Exn (RequestError ''connection refused'')]"
    using g1 g2 g3 startup_failure_not_fatal [of test_config scripted
        "initial [ok (PDict [(''data'', PDict [(''id'', PStr [])])])]" "[]" "''test-key''"
        "RequestError ''connection refused''" ?t2]
    by (auto simp: test_config_def print_def)
  show ?thesis using a b c by simp
qed

section \<open>A first match without an identifier\<close>

lemma create_knowledge_base_scanned:
  assumes "HEYGEN_API_KEY cfg = Some key" "key \<noteq> []"
    and "client (create_request cfg key (name request) (opening request) (prompt request)) (remote s)
           = (Inr r, w)"
    and "is_success r" "decoded r = Some data" "extract_id data = Inr v" "\<not> truthy v"
    and "client (list_request cfg key) w = (Inr r', w')"
    and "is_success r'" "decoded r' = Some list_data"
    and "kb_list_of list_data = Inr (PList (map PDict ds))"
    and "find (same_descriptor (name request) (opening request) (prompt request)) ds = Some d"
  shows "fst (create_knowledge_base cfg client request s) =
           (if truthy (entry_get d ''id'') then Inr (PDict [(''knowledge_base_id'', entry_get d ''id'')])
            else Inl (HTTPException 500
                       (Str (HTTPException 500 (Detail ''Failed to retrieve knowledge base ID'')))))"
proof -
  let ?s1 = "s\<lparr>remote := w, outbound := outbound s @ [create_request cfg key (name request) (opening request) (prompt request)]\<rparr>"
  have f1: "fetch_json client (create_request cfg key (name request) (opening request) (prompt request)) s
          = (Inr data, ?s1)"
    using assms(3-5) by (rule fetch_json_data)
  have l: "client (list_request cfg key) (remote ?s1) = (Inr r', w')"
    using assms(8) by simp
  have f2: "find_by_match client cfg key (name request) (opening request) (prompt request) v ?s1 =
     (Inr (case find (same_descriptor (name request) (opening request) (prompt request)) ds of
             None \<Rightarrow> v | Some d \<Rightarrow> entry_get d ''id''),
      ?s1\<lparr>remote := w', outbound := outbound ?s1 @ [list_request cfg key]\<rparr>)"
    using l assms(9-11) by (rule find_by_match_dicts)
  show ?thesis
    using assms(1,2,6,7,12)
    by (simp add: create_knowledge_base_def create_knowledge_base_try_def f1 f2)
qed

lemma print_default_kb_id: "default_kb_id (print l s) = default_kb_id s"
  by (simp add: print_def)

lemma startup_event_scanned:
  assumes "HEYGEN_API_KEY cfg = Some key" "key \<noteq> []"
    and "client (create_request cfg key default_name default_opening default_prompt) (remote s)
           = (Inr r, w)"
    and "is_success r" "decoded r = Some data" "extract_id data = Inr v" "\<not> truthy v"
    and "client (list_request cfg key) w = (Inr r', w')"
    and "is_success r'" "decoded r' = Some list_data"
    and "kb_list_of list_data = Inr (PList (map PDict ds))"
  shows "default_kb_id (startup_event cfg client s) =
           (case find (same_descriptor default_name default_opening default_prompt) ds of
              None \<Rightarrow> v | Some d \<Rightarrow> entry_get d ''id'')"
proof -
  let ?s0 = "print [Lit ''Creating default knowledge base...''] s"
  let ?s1 = "?s0\<lparr>remote := w, outbound := outbound ?s0 @ [create_request cfg key default_name default_opening default_prompt]\<rparr>"
  have c: "client (create_request cfg key default_name default_opening default_prompt) (remote ?s0)
           = (Inr r, w)"
    using assms(3) by (simp add: print_def)
  have f1: "fetch_json client (create_request cfg key default_name default_opening default_prompt) ?s0
          = (Inr data, ?s1)"
    using c assms(4,5) by (rule fetch_json_data)
  have l: "client (list_request cfg key) (remote (?s1\<lparr>default_kb_id := v\<rparr>)) = (Inr r', w')"
    using assms(8) by simp
  have f2: "find_by_match client cfg key default_name default_opening default_prompt v
              (?s1\<lparr>default_kb_id := v\<rparr>) =
     (Inr (case find (same_descriptor default_name default_opening default_prompt) ds of
             None \<Rightarrow> v | Some d \<Rightarrow> entry_get d ''id''),
      (?s1\<lparr>default_kb_id := v\<rparr>)\<lparr>remote := w',
          outbound := outbound (?s1\<lparr>default_kb_id := v\<rparr>) @ [list_request cfg key]\<rparr>)"
    using l assms(9-11) by (rule find_by_match_dicts)
  show ?thesis
    using assms(1,2,6,7)
    by (simp add: startup_event_def startup_try_def f1 f2 print_default_kb_id)
qed

text \<open>
  C9.  In the fallback scan, of a list entry only the field \<open>id\<close> is read as its
  identifier, and the scan ends at the first entry with the descriptor's
  \<open>(name, opening, prompt)\<close>, whether that entry has an \<open>id\<close> or not.  So when the first
  such entry has no non-empty \<open>id\<close> (whatever its \<open>knowledge_base_id\<close>, and whatever
  entries follow), the scan gives that entry's \<open>id\<close> value, which is no identifier:
  \<open>create_knowledge_base\<close> fails with status 500, and startup caches that value: \<open>None\<close>
  when the entry has no \<open>id\<close> key, the entry's own empty value otherwise (the empty string
  for \<open>id: ""\<close>), in any case a value that is not true, for which \<open>get_default_config\<close>
  answers \<open>knowledge_id\<close> \<open>None\<close>.
\<close>

theorem first_match_without_id_gives_no_identifier:
  assumes "HEYGEN_API_KEY cfg = Some key" "key \<noteq> []"
    and "find (same_descriptor n opn p) ds = Some d" "\<not> truthy (entry_get d ''id'')"
    and "is_success r" "decoded r = Some data" "extract_id data = Inr v" "\<not> truthy v"
    and "client (list_request cfg key) w = (Inr r', w')"
    and "is_success r'" "decoded r' = Some list_data"
    and "kb_list_of list_data = Inr (PList (map PDict ds))"
  shows "scan_kb_list (map PDict ds) n opn p v = Inr (entry_get d ''id'')
     \<and> (n = name request \<and> opn = opening request \<and> p = prompt request
         \<and> client (create_request cfg key n opn p) (remote s) = (Inr r, w) \<longrightarrow>
        fst (create_knowledge_base cfg client request s) =
          Inl (HTTPException 500
                (Str (HTTPException 500 (Detail ''Failed to retrieve knowledge base ID'')))))
     \<and> (n = default_name \<and> opn = default_opening \<and> p = default_prompt
         \<and> client (create_request cfg key n opn p) (remote s) = (Inr r, w) \<longrightarrow>
        default_kb_id (startup_event cfg client s) = entry_get d ''id''
        \<and> \<not> truthy (default_kb_id (startup_event cfg client s))
        \<and> (map_of d ''id'' = None \<longrightarrow> default_kb_id (startup_event cfg client s) = PNone)
        \<and> fst (get_default_config (startup_event cfg client s)) =
            Inr (PDict (static_config @ [(''knowledge_id'', PNone)])))"
proof (intro conjI impI)
  show "scan_kb_list (map PDict ds) n opn p v = Inr (entry_get d ''id'')"
    using assms(3) by (simp add: scan_kb_list_dicts)
next
  assume h: "n = name request \<and> opn = opening request \<and> p = prompt request
         \<and> client (create_request cfg key n opn p) (remote s) = (Inr r, w)"
  have c: "client (create_request cfg key (name request) (opening request) (prompt request))
             (remote s) = (Inr r, w)"
    using h by auto
  have m: "find (same_descriptor (name request) (opening request) (prompt request)) ds = Some d"
    using h assms(3) by auto
  have "fst (create_knowledge_base cfg client request s) =
           (if truthy (entry_get d ''id'') then Inr (PDict [(''knowledge_base_id'', entry_get d ''id'')])
            else Inl (HTTPException 500
                       (Str (HTTPException 500 (Detail ''Failed to retrieve knowledge base ID'')))))"
    using assms(1,2) c assms(5-12) m by (rule create_knowledge_base_scanned)
  then show "fst (create_knowledge_base cfg client request s) =
          Inl (HTTPException 500
                (Str (HTTPException 500 (Detail ''Failed to retrieve knowledge base ID''))))"
    using assms(4) by simp
next
  assume h: "n = default_name \<and> opn = default_opening \<and> p = default_prompt
         \<and> client (create_request cfg key n opn p) (remote s) = (Inr r, w)"
  have c: "client (create_request cfg key default_name default_opening default_prompt)
             (remote s) = (Inr r, w)"
    using h by auto
  have m: "find (same_descriptor default_name default_opening default_prompt) ds = Some d"
    using h assms(3) by auto
  have "default_kb_id (startup_event cfg client s) =
           (case find (same_descriptor default_name default_opening default_prompt) ds of
              None \<Rightarrow> v | Some d \<Rightarrow> entry_get d ''id'')"
    using assms(1,2) c assms(5-12) by (rule startup_event_scanned)
  then have e: "default_kb_id (startup_event cfg client s) = entry_get d ''id''"
    using m by simp
  show "default_kb_id (startup_event cfg client s) = entry_get d ''id''"
    by (rule e)
  show "\<not> truthy (default_kb_id (startup_event cfg client s))"
    using e assms(4) by simp
  show "fst (get_default_config (startup_event cfg client s)) =
            Inr (PDict (static_config @ [(''knowledge_id'', PNone)]))"
    using e assms(4) by (simp add: get_default_config_def setitem_static_config)
  assume "map_of d ''id'' = None"
  then show "default_kb_id (startup_event cfg client s) = PNone"
    using e by (simp add: entry_get_def)
qed

theorem first_match_without_id_gives_no_identifier_witness:
  "fst (create_knowledge_base test_config scripted docs_request
          (initial [ok (PDict [(''data'', PDict [])]),
                    ok (listing [entry_of ''Docs'' ''hello'' ''answer briefly''
                                   [(''knowledge_base_id'', PStr ''kb_1'')],
                                 docs_entry (PStr ''kb_2'')])]))
     = Inl (HTTPException 500
             (Str (HTTPException 500 (Detail ''Failed to retrieve knowledge base ID''))))
   \<and> default_kb_id (startup_event test_config scripted
          (initial [ok (PDict [(''data'', PDict [])]),
                    ok (listing [entry_of default_name default_opening default_prompt
                                   [(''knowledge_base_id'', PStr ''kb_1'')],
                                 entry_of default_name default_opening default_prompt
                                   [(''id'', PStr ''kb_2'')]])])) = PNone
   \<and> default_kb_id (startup_event test_config scripted
          (initial [ok (PDict [(''data'', PDict [])]),
                    ok (listing [entry_of default_name default_opening default_prompt
                                   [(''id'', PStr [])]])])) = PStr []"
proof -
  have a: "fst (create_knowledge_base test_config scripted docs_request
          (initial [ok (PDict [(''data'', PDict [])]),
                    ok (listing [entry_of ''Docs'' ''hello'' ''answer briefly''
                                   [(''knowledge_base_id'', PStr ''kb_1'')],
                                 docs_entry (PStr ''kb_2'')])]))
     = Inl (HTTPException 500
             (Str (HTTPException 500 (Detail ''Failed to retrieve knowledge base ID''))))"
    using first_match_without_id_gives_no_identifier [of test_config "''test-key''"
        "''Docs''" "''hello''" "''answer briefly''"
        "[entry_of ''Docs'' ''hello'' ''answer briefly'' [(''knowledge_base_id'', PStr ''kb_1'')],
          docs_entry (PStr ''kb_2'')]"
        "entry_of ''Docs'' ''hello'' ''answer briefly'' [(''knowledge_base_id'', PStr ''kb_1'')]"
        "Response 200 [] (Some (PDict [(''data'', PDict [])]))"
        "PDict [(''data'', PDict [])]" PNone scripted
        "[ok (listing [entry_of ''Docs'' ''hello'' ''answer briefly''
                                   [(''knowledge_base_id'', PStr ''kb_1'')],
                                 docs_entry (PStr ''kb_2'')])]"
        "Response 200 [] (Some (listing [entry_of ''Docs'' ''hello'' ''answer briefly''
                                   [(''knowledge_base_id'', PStr ''kb_1'')],
                                 docs_entry (PStr ''kb_2'')]))"
        "[]"
        "listing [entry_of ''Docs'' ''hello'' ''answer briefly''
                                   [(''knowledge_base_id'', PStr ''kb_1'')],
                                 docs_entry (PStr ''kb_2'')]"
        docs_request
        "initial [ok (PDict [(''data'', PDict [])]),
                    ok (listing [entry_of ''Docs'' ''hello'' ''answer briefly''
                                   [(''knowledge_base_id'', PStr ''kb_1'')],
                                 docs_entry (PStr ''kb_2'')])]"]
    by (simp add: eval_defs entry_of_def)
  have b: "default_kb_id (startup_event test_config scripted
          (initial [ok (PDict [(''data'', PDict [])]),
                    ok (listing [entry_of default_name default_opening default_prompt
                                   [(''knowledge_base_id'', PStr ''kb_1'')],
                                 entry_of default_name default_opening default_prompt
                                   [(''id'', PStr ''kb_2'')]])])) = PNone"
    using first_match_without_id_gives_no_identifier [of test_config "''test-key''"
        default_name default_opening default_prompt
        "[entry_of default_name default_opening default_prompt [(''knowledge_base_id'', PStr ''kb_1'')],
          entry_of default_name default_opening default_prompt [(''id'', PStr ''kb_2'')]]"
        "entry_of default_name default_opening default_prompt [(''knowledge_base_id'', PStr ''kb_1'')]"
        "Response 200 [] (Some (PDict [(''data'', PDict [])]))"
        "PDict [(''data'', PDict [])]" PNone scripted
        "[ok (listing [entry_of default_name default_opening default_prompt
                                   [(''knowledge_base_id'', PStr ''kb_1'')],
                                 entry_of default_name default_opening default_prompt
                                   [(''id'', PStr ''kb_2'')]])]"
        "Response 200 [] (Some (listing [entry_of default_name default_opening default_prompt
                                   [(''knowledge_base_id'', PStr ''kb_1'')],
                                 entry_of default_name default_opening default_prompt
                                   [(''id'', PStr ''kb_2'')]]))"
        "[]"
        "listing [entry_of default_name default_opening default_prompt
                                   [(''knowledge_base_id'', PStr ''kb_1'')],
                                 entry_of default_name default_opening default_prompt
                                   [(''id'', PStr ''kb_2'')]]"
        docs_request
        "initial [ok (PDict [(''data'', PDict [])]),
                    ok (listing [entry_of default_name default_opening default_prompt
                                   [(''knowledge_base_id'', PStr ''kb_1'')],
                                 entry_of default_name default_opening default_prompt
                                   [(''id'', PStr ''kb_2'')]])]"]
    by (simp add: test_config_def listing_def ok_def initial_def is_success_def extract_id_def
          kb_list_of_def same_descriptor_def entry_get_def entry_of_def)
  have c: "default_kb_id (startup_event test_config scripted
          (initial [ok (PDict [(''data'', PDict [])]),
                    ok (listing [entry_of default_name default_opening default_prompt
                                   [(''id'', PStr [])]])])) = PStr []"
    using first_match_without_id_gives_no_identifier [of test_config "''test-key''"
        default_name default_opening default_prompt
        "[entry_of default_name default_opening default_prompt [(''id'', PStr [])]]"
        "entry_of default_name default_opening default_prompt [(''id'', PStr [])]"
        "Response 200 [] (Some (PDict [(''data'', PDict [])]))"
        "PDict [(''data'', PDict [])]" PNone scripted
        "[ok (listing [entry_of default_name default_opening default_prompt [(''id'', PStr [])]])]"
        "Response 200 [] (Some (listing [entry_of default_name default_opening default_prompt
                                   [(''id'', PStr [])]]))"
        "[]"
        "listing [entry_of default_name default_opening default_prompt [(''id'', PStr [])]]"
        docs_request
        "initial [ok (PDict [(''data'', PDict [])]),
                    ok (listing [entry_of default_name default_opening default_prompt
                                   [(''id'', PStr [])]])]"]
    by (simp add: test_config_def listing_def ok_def initial_def is_success_def extract_id_def
          kb_list_of_def same_descriptor_def entry_get_def entry_of_def)
  show ?thesis using a b c by simp
qed

text \<open>
  The cache is not always \<open>None\<close> after such a scan: when the first matching entry has the
  empty string as \<open>id\<close>, startup ends without an exception and the cache holds the empty
  string.
\<close>

theorem first_match_empty_id_cached_counterexample:
  "find (same_descriptor default_name default_opening default_prompt)
     [entry_of default_name default_opening default_prompt [(''id'', PStr [])]] =
     Some (entry_of default_name default_opening default_prompt [(''id'', PStr [])])
   \<and> \<not> truthy (entry_get (entry_of default_name default_opening default_prompt
                               [(''id'', PStr [])]) ''id'')
   \<and> default_kb_id (startup_event test_config scripted
          (initial [ok (PDict [(''data'', PDict [])]),
                    ok (listing [entry_of default_name default_opening default_prompt
                                   [(''id'', PStr [])]])])) = PStr []
   \<and> default_kb_id (startup_event test_config scripted
          (initial [ok (PDict [(''data'', PDict [])]),
                    ok (listing [entry_of default_name default_opening default_prompt
                                   [(''id'', PStr [])]])])) \<noteq> PNone"
  by (simp add: startup_event_def startup_try_def find_by_match_def fetch_json_def send_def
        raise_for_status_def json_def is_success_def extract_id_def kb_list_of_def
        kb_matches_def print_def initial_def ok_def listing_def entry_of_def test_config_def
        same_descriptor_def entry_get_def)

section \<open>Creating twice\<close>

lemma find_by_match_remote:
  "find_by_match client cfg key n opn p v s = (res, s') \<Longrightarrow>
     remote s' = snd (client (list_request cfg key) (remote s))"
  by (auto simp: find_by_match_def split: prod.splits sum.splits dest: fetch_json_remote)

lemma create_knowledge_base_scanned_remote:
  assumes "HEYGEN_API_KEY cfg = Some key" "key \<noteq> []"
    and "client (create_request cfg key (name request) (opening request) (prompt request)) (remote s)
           = (Inr r, w)"
    and "is_success r" "decoded r = Some data" "extract_id data = Inr v" "\<not> truthy v"
    and "client (list_request cfg key) w = (Inr r', w')"
  shows "remote (snd (create_knowledge_base cfg client request s)) = w'"
proof -
  let ?s1 = "s\<lparr>remote := w, outbound := outbound s @ [create_request cfg key (name request) (opening request) (prompt request)]\<rparr>"
  have f1: "fetch_json client (create_request cfg key (name request) (opening request) (prompt request)) s
          = (Inr data, ?s1)"
    using assms(3-5) by (rule fetch_json_data)
  obtain res s2 where fm: "find_by_match client cfg key (name request) (opening request)
      (prompt request) v ?s1 = (res, s2)" by force
  have "remote s2 = snd (client (list_request cfg key) (remote ?s1))"
    using fm by (rule find_by_match_remote)
  then have r2: "remote s2 = w'" using assms(8) by simp
  show ?thesis
    using assms(1,2,6,7) r2
    by (simp add: create_knowledge_base_def create_knowledge_base_try_def f1 fm split: sum.splits)
qed

lemma find_first_of_append: "find P xs = Some x \<Longrightarrow> find P (xs @ ys) = Some x"
  by (induction xs) (auto split: if_splits)

lemma create_twice_by_match:
  assumes "HEYGEN_API_KEY cfg = Some key" "key \<noteq> []"
    and "client (create_request cfg key (name request) (opening request) (prompt request)) (remote s)
           = (Inr r1, w1)"
    and "is_success r1" "decoded r1 = Some data1" "extract_id data1 = Inr v1" "\<not> truthy v1"
    and "client (list_request cfg key) w1 = (Inr l1, w2)"
    and "is_success l1" "decoded l1 = Some list_data1"
    and "kb_list_of list_data1 = Inr (PList (map PDict ds))"
    and "client (create_request cfg key (name request) (opening request) (prompt request)) w2
           = (Inr r2, w3)"
    and "is_success r2" "decoded r2 = Some data2" "extract_id data2 = Inr v2" "\<not> truthy v2"
    and "client (list_request cfg key) w3 = (Inr l2, w4)"
    and "is_success l2" "decoded l2 = Some list_data2"
    and "kb_list_of list_data2 = Inr (PList (map PDict (ds @ later)))"
    and "find (same_descriptor (name request) (opening request) (prompt request)) ds = Some d"
    and "truthy (entry_get d ''id'')"
  shows "fst (create_knowledge_base cfg client request s) =
           Inr (PDict [(''knowledge_base_id'', entry_get d ''id'')])
     \<and> fst (create_knowledge_base cfg client request
              (snd (create_knowledge_base cfg client request s))) =
           Inr (PDict [(''knowledge_base_id'', entry_get d ''id'')])"
proof -
  let ?t = "snd (create_knowledge_base cfg client request s)"
  have a: "fst (create_knowledge_base cfg client request s) =
           (if truthy (entry_get d ''id'') then Inr (PDict [(''knowledge_base_id'', entry_get d ''id'')])
            else Inl (HTTPException 500
                       (Str (HTTPException 500 (Detail ''Failed to retrieve knowledge base ID'')))))"
    using assms(1-11,21) by (rule create_knowledge_base_scanned)
  have rt: "remote ?t = w2"
    using assms(1-8) by (rule create_knowledge_base_scanned_remote)
  have c2: "client (create_request cfg key (name request) (opening request) (prompt request))
              (remote ?t) = (Inr r2, w3)"
    using assms(12) rt by simp
  have m2: "find (same_descriptor (name request) (opening request) (prompt request)) (ds @ later)
              = Some d"
    using assms(21) by (rule find_first_of_append)
  have b: "fst (create_knowledge_base cfg client request ?t) =
           (if truthy (entry_get d ''id'') then Inr (PDict [(''knowledge_base_id'', entry_get d ''id'')])
            else Inl (HTTPException 500
                       (Str (HTTPException 500 (Detail ''Failed to retrieve knowledge base ID'')))))"
    using assms(1,2) c2 assms(13-20) m2 by (rule create_knowledge_base_scanned)
  show ?thesis using a b assms(22) by simp
qed

text \<open>
  C3.  The operation creates before it looks, so a second \<open>create_knowledge_base\<close> with the
  same descriptor gives the identifier of the first through the scan of the list only:
  when the credential is present, both create responses carry no identifier, both list
  calls succeed, the first call finds a matching entry with an identifier, and the second
  listing is the first one followed by the entries added since (the listing is consistent:
  it keeps its entries and their order).  Then, for every descriptor, both calls return
  that entry's identifier.
\<close>

theorem second_create_same_identifier:
  "HEYGEN_API_KEY cfg = Some key \<and> key \<noteq> []
       \<and> client (create_request cfg key (name request) (opening request) (prompt request)) (remote s)
           = (Inr ra, wa)
       \<and> is_success ra \<and> decoded ra = Some da \<and> extract_id da = Inr va \<and> \<not> truthy va
       \<and> client (list_request cfg key) wa = (Inr la, wb)
       \<and> is_success la \<and> decoded la = Some lda
       \<and> kb_list_of lda = Inr (PList (map PDict ds))
       \<and> client (create_request cfg key (name request) (opening request) (prompt request)) wb
           = (Inr rb, wc)
       \<and> is_success rb \<and> decoded rb = Some db \<and> extract_id db = Inr vb \<and> \<not> truthy vb
       \<and> client (list_request cfg key) wc = (Inr lb, wd)
       \<and> is_success lb \<and> decoded lb = Some ldb
       \<and> kb_list_of ldb = Inr (PList (map PDict (ds @ later)))
       \<and> find (same_descriptor (name request) (opening request) (prompt request)) ds = Some d
       \<and> truthy (entry_get d ''id'')
    \<longrightarrow> fst (create_knowledge_base cfg client request s) =
           Inr (PDict [(''knowledge_base_id'', entry_get d ''id'')])
        \<and> fst (create_knowledge_base cfg client request
              (snd (create_knowledge_base cfg client request s))) =
           Inr (PDict [(''knowledge_base_id'', entry_get d ''id'')])"
proof (intro conjI impI)
  assume h: "HEYGEN_API_KEY cfg = Some key \<and> key \<noteq> []
       \<and> client (create_request cfg key (name request) (opening request) (prompt request)) (remote s)
           = (Inr ra, wa)
       \<and> is_success ra \<and> decoded ra = Some da \<and> extract_id da = Inr va \<and> \<not> truthy va
       \<and> client (list_request cfg key) wa = (Inr la, wb)
       \<and> is_success la \<and> decoded la = Some lda
       \<and> kb_list_of lda = Inr (PList (map PDict ds))
       \<and> client (create_request cfg key (name request) (opening request) (prompt request)) wb
           = (Inr rb, wc)
       \<and> is_success rb \<and> decoded rb = Some db \<and> extract_id db = Inr vb \<and> \<not> truthy vb
       \<and> client (list_request cfg key) wc = (Inr lb, wd)
       \<and> is_success lb \<and> decoded lb = Some ldb
       \<and> kb_list_of ldb = Inr (PList (map PDict (ds @ later)))
       \<and> find (same_descriptor (name request) (opening request) (prompt request)) ds = Some d
       \<and> truthy (entry_get d ''id'')"
  have t: "fst (create_knowledge_base cfg client request s) =
           Inr (PDict [(''knowledge_base_id'', entry_get d ''id'')])
     \<and> fst (create_knowledge_base cfg client request
              (snd (create_knowledge_base cfg client request s))) =
           Inr (PDict [(''knowledge_base_id'', entry_get d ''id'')])"
    using h by (elim conjE) (rule create_twice_by_match)
  show "fst (create_knowledge_base cfg client request s) =
           Inr (PDict [(''knowledge_base_id'', entry_get d ''id'')])"
    using t by (rule conjunct1)
  show "fst (create_knowledge_base cfg client request
              (snd (create_knowledge_base cfg client request s))) =
           Inr (PDict [(''knowledge_base_id'', entry_get d ''id'')])"
    using t by (rule conjunct2)
qed

theorem second_create_same_identifier_witness:
  "fst (create_knowledge_base test_config appending_service docs_request (initial [])) =
     Inr (PDict [(''knowledge_base_id'', PStr ''kb_i'')])
   \<and> fst (create_knowledge_base test_config appending_service docs_request
            (snd (create_knowledge_base test_config appending_service docs_request (initial [])))) =
     Inr (PDict [(''knowledge_base_id'', PStr ''kb_i'')])"
proof -
  let ?e1 = "entry_of ''Docs'' ''hello'' ''answer briefly'' [(''id'', PStr ''kb_i'')]"
  let ?e2 = "entry_of ''Docs'' ''hello'' ''answer briefly'' [(''id'', PStr ''kb_ii'')]"
  show ?thesis
    using second_create_same_identifier [where client = appending_service and cfg = test_config
        and request = docs_request and s = "initial []" and key = "''test-key''"
        and ra = "Response 200 [] (Some (PDict [(''data'', PDict [])]))"
        and wa = "[?e1]" and da = "PDict [(''data'', PDict [])]" and va = PNone
        and la = "Response 200 [] (Some (listing [?e1]))" and wb = "[?e1]"
        and lda = "listing [?e1]" and ds = "[?e1]"
        and rb = "Response 200 [] (Some (PDict [(''data'', PDict [])]))"
        and wc = "[?e1, ?e2]" and db = "PDict [(''data'', PDict [])]" and vb = PNone
        and lb = "Response 200 [] (Some (listing [?e1, ?e2]))" and wd = "[?e1, ?e2]"
        and ldb = "listing [?e1, ?e2]" and later = "[?e2]" and d = ?e1]
    by (simp add: eval_defs entry_of_def appending_service_def)
qed

text \<open>
  Without the condition on the create responses the identifiers differ.  The service
  \<open>plain_service\<close> lists all it keeps, oldest first, and a list call leaves it as it is; it
  answers each create with the identifier of the knowledge base it adds.  The first call
  returns \<open>kb_i\<close>, the second \<open>kb_ii\<close>: the list is never consulted.
\<close>

theorem second_create_fresh_identifier_counterexample:
  "fst (create_knowledge_base test_config plain_service docs_request (initial [])) =
     Inr (PDict [(''knowledge_base_id'', PStr ''kb_i'')])
   \<and> fst (create_knowledge_base test_config plain_service docs_request
            (snd (create_knowledge_base test_config plain_service docs_request (initial [])))) =
     Inr (PDict [(''knowledge_base_id'', PStr ''kb_ii'')])
   \<and> fst (create_knowledge_base test_config plain_service docs_request
            (snd (create_knowledge_base test_config plain_service docs_request (initial [])))) \<noteq>
     fst (create_knowledge_base test_config plain_service docs_request (initial []))
   \<and> plain_service (list_request test_config ''test-key'')
        [entry_of ''Docs'' ''hello'' ''answer briefly'' [(''id'', PStr ''kb_i'')]] =
      (ok (listing [entry_of ''Docs'' ''hello'' ''answer briefly'' [(''id'', PStr ''kb_i'')]]),
       [entry_of ''Docs'' ''hello'' ''answer briefly'' [(''id'', PStr ''kb_i'')]])
   \<and> plain_service (list_request test_config ''test-key'')
        [entry_of ''Docs'' ''hello'' ''answer briefly'' [(''id'', PStr ''kb_i'')],
         entry_of ''Docs'' ''hello'' ''answer briefly'' [(''id'', PStr ''kb_ii'')]] =
      (ok (listing [entry_of ''Docs'' ''hello'' ''answer briefly'' [(''id'', PStr ''kb_i'')],
                    entry_of ''Docs'' ''hello'' ''answer briefly'' [(''id'', PStr ''kb_ii'')]]),
       [entry_of ''Docs'' ''hello'' ''answer briefly'' [(''id'', PStr ''kb_i'')],
        entry_of ''Docs'' ''hello'' ''answer briefly'' [(''id'', PStr ''kb_ii'')]])
   \<and> remote (snd (create_knowledge_base test_config plain_service docs_request
            (snd (create_knowledge_base test_config plain_service docs_request (initial []))))) =
       [entry_of ''Docs'' ''hello'' ''answer briefly'' [(''id'', PStr ''kb_i'')],
        entry_of ''Docs'' ''hello'' ''answer briefly'' [(''id'', PStr ''kb_ii'')]]"
  by (simp add: create_knowledge_base_def create_knowledge_base_try_def
        fetch_json_def send_def raise_for_status_def json_def plain_service_def eval_defs
        entry_of_def)

end
